theory Spec2Isabelle
  imports Main
begin

section \<open>Nexus IQ client (package iq, file iq/iq.go)\<close>

text \<open>
  A shallow embedding of \<^verbatim>\<open>iq.go\<close>: \<^verbatim>\<open>New\<close>, \<^verbatim>\<open>AuditWithSbom\<close>, \<^verbatim>\<open>audit\<close> and the functions
  they call. Go's \<^verbatim>\<open>int\<close> is modelled by \<open>int\<close>: the only arithmetic of the file is
  \<^verbatim>\<open>i.tries++\<close>, which starts at 0 and grows by one per HTTP poll, so the counter stays far
  from the bounds of the machine integer. Logging (\<^verbatim>\<open>logLady\<close>), the
  printing to standard output (\<^verbatim>\<open>fmt.Print\<close>, \<^verbatim>\<open>warnUserOfBadLifeChoices\<close>) and \<^verbatim>\<open>time.Sleep\<close>
  have no influence on any value the file computes and are left out. \<^verbatim>\<open>AuditPackages\<close> differs
  from \<^verbatim>\<open>AuditWithSbom\<close> only in how it gets the SBOM (from the packages \<^verbatim>\<open>ossindex\<close> and
  \<^verbatim>\<open>cyclonedx\<close>) and is not modelled.
\<close>

subsection \<open>Errors\<close>

text \<open>
  \<open>GoError m\<close> is an error made by \<^verbatim>\<open>fmt.Errorf\<close> or returned by a library, with message
  \<open>m\<close>; the other two constructors are the error types the file declares.
\<close>

datatype error =
    GoError string
  | ServerError "error option" string
  | ServerErrorMissingLicense

fun Error :: "error \<Rightarrow> string" where
  "Error (GoError m) = m"
| "Error (ServerError None m) = ''An error occurred: '' @ m"
| "Error (ServerError (Some e) m) = ''An error occurred: '' @ m @ '', err: '' @ Error e"
| "Error ServerErrorMissingLicense =
     ''error accessing nexus iq server: No valid product license installed''"

text \<open>The verb \<^verbatim>\<open>%d\<close> of \<^verbatim>\<open>fmt\<close>: an integer in decimal.\<close>

function show_nat :: "nat \<Rightarrow> string" where
  "show_nat n = (if n < 10 then [''0123456789'' ! n] else show_nat (n div 10) @ [''0123456789'' ! (n mod 10)])"
  by pat_completeness auto
termination
  by (relation "measure (\<lambda>n. n)") auto

definition show_int :: "int \<Rightarrow> string" where
  "show_int i = (if i < 0 then ''-'' @ show_nat (nat (- i)) else show_nat (nat i))"

text \<open>A call either returns normally or panics.\<close>

datatype 'a panics = Panic | Normal 'a

subsection \<open>Options and Server\<close>

text \<open>
  \<^verbatim>\<open>time.Time\<close> and \<^verbatim>\<open>time.Duration\<close> are counts of nanoseconds; the zero \<^verbatim>\<open>Time\<close> is 0.
\<close>

record Options =
  User :: string
  Token :: string
  Stage :: string
  Application :: string
  Server :: string
  MaxRetries :: int
  Tool :: string
  Version :: string
  OSSIndexUser :: string
  OSSIndexToken :: string
  DBCacheName :: string
  TTL :: int
  PollInterval :: int

datatype Logger = Logger

text \<open>
  The user agent comes from the sibling package \<^verbatim>\<open>useragent\<close>: \<open>Agent\<close> holds the options
  \<^verbatim>\<open>useragent.New\<close> is given; the header text it produces is a parameter of the model
  (\<open>GetUserAgent\<close> below).
\<close>

record Agent =
  ClientTool :: string
  AgentVersion :: string

record Server =
  Options :: Options
  logLady :: Logger
  agent :: Agent
  tries :: int

text \<open>
  \<^verbatim>\<open>reflect.ValueOf(&options).Elem().FieldByName(optionName).IsZero()\<close>: a name that is
  not a field gives the zero \<^verbatim>\<open>Value\<close>, on which \<^verbatim>\<open>IsZero\<close> panics. (For \<^verbatim>\<open>TTL\<close> Go looks at
  every field of the \<^verbatim>\<open>time.Time\<close> struct, the model at the instant only; \<open>New\<close> asks for the
  four string fields and no other.)
\<close>

definition FieldByName_IsZero :: "Options \<Rightarrow> string \<Rightarrow> bool panics" where
  "FieldByName_IsZero options optionName =
    (if optionName = ''User'' then Normal (User options = [])
     else if optionName = ''Token'' then Normal (Token options = [])
     else if optionName = ''Stage'' then Normal (Stage options = [])
     else if optionName = ''Application'' then Normal (Application options = [])
     else if optionName = ''Server'' then Normal (Server options = [])
     else if optionName = ''MaxRetries'' then Normal (MaxRetries options = 0)
     else if optionName = ''Tool'' then Normal (Tool options = [])
     else if optionName = ''Version'' then Normal (Version options = [])
     else if optionName = ''OSSIndexUser'' then Normal (OSSIndexUser options = [])
     else if optionName = ''OSSIndexToken'' then Normal (OSSIndexToken options = [])
     else if optionName = ''DBCacheName'' then Normal (DBCacheName options = [])
     else if optionName = ''TTL'' then Normal (TTL options = 0)
     else if optionName = ''PollInterval'' then Normal (PollInterval options = 0)
     else Panic)"

definition validateRequiredOption :: "Options \<Rightarrow> string \<Rightarrow> error option panics" where
  "validateRequiredOption options optionName =
    (case FieldByName_IsZero options optionName of
       Panic \<Rightarrow> Panic
     | Normal zero \<Rightarrow>
         Normal (if zero then Some (GoError (''missing options.'' @ optionName)) else None))"

text \<open>\<^verbatim>\<open>strings.HasSuffix\<close> and \<^verbatim>\<open>strings.TrimSuffix\<close>.\<close>

definition HasSuffix :: "string \<Rightarrow> string \<Rightarrow> bool" where
  "HasSuffix s suffix = (length suffix \<le> length s \<and> drop (length s - length suffix) s = suffix)"

definition TrimSuffix :: "string \<Rightarrow> string \<Rightarrow> string" where
  "TrimSuffix s suffix = (if HasSuffix s suffix then take (length s - length suffix) s else s)"

text \<open>
  \<open>New logger options now\<close>: \<open>logger = None\<close> is the nil pointer, \<open>now\<close> is what
  \<^verbatim>\<open>time.Now()\<close> returns. The result \<open>Inl err\<close> is Go's \<^verbatim>\<open>(nil, err)\<close>.
\<close>

definition New :: "Logger option \<Rightarrow> Options \<Rightarrow> int \<Rightarrow> (error + Server) panics" where
  "New logger options now =
    (case logger of
       None \<Rightarrow> Normal (Inl (GoError ''missing logger''))
     | Some lg \<Rightarrow>
    (case validateRequiredOption options ''Application'' of
       Panic \<Rightarrow> Panic
     | Normal (Some err) \<Rightarrow> Normal (Inl err)
     | Normal None \<Rightarrow>
    (case validateRequiredOption options ''Server'' of
       Panic \<Rightarrow> Panic
     | Normal (Some err) \<Rightarrow> Normal (Inl err)
     | Normal None \<Rightarrow>
    (case validateRequiredOption options ''User'' of
       Panic \<Rightarrow> Panic
     | Normal (Some err) \<Rightarrow> Normal (Inl err)
     | Normal None \<Rightarrow>
    (case validateRequiredOption options ''Token'' of
       Panic \<Rightarrow> Panic
     | Normal (Some err) \<Rightarrow> Normal (Inl err)
     | Normal None \<Rightarrow>
         (let options1 = (if PollInterval options = 0
                          then options\<lparr>PollInterval := 1 * 1000000000\<rparr> else options);
              options2 = (if TTL options1 = 0
                          then options1\<lparr>TTL := now + 3600000000000 * 12\<rparr> else options1);
              options3 = (if HasSuffix (Server options2) ''/''
                          then options2\<lparr>Server := TrimSuffix (Server options2) ''/''\<rparr>
                          else options2);
              ua = \<lparr>ClientTool = Tool options3, AgentVersion = Version options3\<rparr>
          in Normal (Inr \<lparr>Options = options3, logLady = lg, agent = ua, tries = 0\<rparr>)))))))"

subsection \<open>Data exchanged with the server\<close>

record StatusURLResult =
  PolicyAction :: string
  ReportHTMLURL :: string
  AbsoluteReportHTMLURL :: string
  IsError :: bool
  ErrorMessage :: string

record application =
  ID :: string

record applicationResponse =
  Applications :: "application list"

record thirdPartyAPIResult =
  StatusURL :: string

record resultError =
  finished :: bool
  err :: "error option"

definition internalApplicationIDURL :: string where
  "internalApplicationIDURL = ''/api/v2/applications?publicId=''"

definition thirdPartyAPILeft :: string where
  "thirdPartyAPILeft = ''/api/v2/scan/applications/''"

definition thirdPartyAPIRight :: string where
  "thirdPartyAPIRight = ''/sources/nancy?stageId=''"

subsection \<open>The libraries and the network\<close>

text \<open>
  A parsed \<^verbatim>\<open>url.URL\<close> with the fields of Go's struct (\<open>Userinfo\<close> is the \<^verbatim>\<open>User\<close> field: the
  user name and the password when one is set).
\<close>

record URL =
  Scheme :: string
  Opaque :: string
  Userinfo :: "(string \<times> string option) option"
  Host :: string
  Path :: string
  RawPath :: string
  OmitHost :: bool
  ForceQuery :: bool
  RawQuery :: string
  Fragment :: string
  RawFragment :: string

definition IsAbs :: "URL \<Rightarrow> bool" where
  "IsAbs u = (Scheme u \<noteq> [])"

subsection \<open>A model of \<^verbatim>\<open>net/url\<close>\<close>

text \<open>
  \<^verbatim>\<open>url.Parse\<close> and \<^verbatim>\<open>(*URL).String\<close>, following the source of Go's standard library
  (Go 1.19), strings being lists of bytes. The model of \<^verbatim>\<open>iq.go\<close> below does not depend on
  it: it takes the two functions as parameters, and this model instantiates them in the
  closed examples.
\<close>

definition HasPrefix :: "string \<Rightarrow> string \<Rightarrow> bool" where
  "HasPrefix s prefix = (take (length prefix) s = prefix)"

text \<open>\<^verbatim>\<open>strings.Cut\<close> at a one-byte separator: the text before it and the text after it.\<close>

definition Cut :: "string \<Rightarrow> char \<Rightarrow> string \<times> string" where
  "Cut s sep = (takeWhile (\<lambda>c. c \<noteq> sep) s, drop 1 (dropWhile (\<lambda>c. c \<noteq> sep) s))"

definition is_lower :: "char \<Rightarrow> bool" where
  "is_lower c = (c \<in> set ''abcdefghijklmnopqrstuvwxyz'')"

definition is_upper :: "char \<Rightarrow> bool" where
  "is_upper c = (c \<in> set ''ABCDEFGHIJKLMNOPQRSTUVWXYZ'')"

definition is_digit :: "char \<Rightarrow> bool" where
  "is_digit c = (c \<in> set ''0123456789'')"

definition ToLower :: "string \<Rightarrow> string" where
  "ToLower s = map (\<lambda>c. case map_of (zip ''ABCDEFGHIJKLMNOPQRSTUVWXYZ'' ''abcdefghijklmnopqrstuvwxyz'') c of
                          Some l \<Rightarrow> l | None \<Rightarrow> c) s"

definition stringContainsCTLByte :: "string \<Rightarrow> bool" where
  "stringContainsCTLByte s = list_ex (\<lambda>c. of_char c < (32::nat) \<or> of_char c = (127::nat)) s"

text \<open>\<open>getScheme\<close>: \<open>pre\<close> is the text already read, \<open>None\<close> the error.\<close>

fun getScheme_loop :: "string \<Rightarrow> string \<Rightarrow> string \<Rightarrow> (string \<times> string) option" where
  "getScheme_loop rawURL pre [] = Some ([], rawURL)"
| "getScheme_loop rawURL pre (c # cs) =
    (if is_lower c \<or> is_upper c then getScheme_loop rawURL (pre @ [c]) cs
     else if is_digit c \<or> c \<in> set ''+-.'' then
       (if pre = [] then Some ([], rawURL) else getScheme_loop rawURL (pre @ [c]) cs)
     else if c = CHR '':'' then (if pre = [] then None else Some (pre, cs))
     else Some ([], rawURL))"

definition getScheme :: "string \<Rightarrow> (string \<times> string) option" where
  "getScheme rawURL = getScheme_loop rawURL [] rawURL"

datatype encoding = encodePath | encodePathSegment | encodeHost | encodeZone
  | encodeUserPassword | encodeQueryComponent | encodeFragment

definition shouldEscape :: "char \<Rightarrow> encoding \<Rightarrow> bool" where
  "shouldEscape c mode =
    (if is_lower c \<or> is_upper c \<or> is_digit c then False
     else if (mode = encodeHost \<or> mode = encodeZone) \<and> c \<in> set (''!$&'' @ [CHR 0x27] @ ''()*+,;=:[]<>'' @ [CHR 0x22]) then False
     else if c \<in> set ''-_.~'' then False
     else if c \<in> set ''$&+,/:;=?@'' \<and> mode = encodePath then c = CHR ''?''
     else if c \<in> set ''$&+,/:;=?@'' \<and> mode = encodePathSegment then c \<in> set ''/;,?''
     else if c \<in> set ''$&+,/:;=?@'' \<and> mode = encodeUserPassword then c \<in> set ''@/?:''
     else if c \<in> set ''$&+,/:;=?@'' \<and> mode = encodeQueryComponent then True
     else if c \<in> set ''$&+,/:;=?@'' \<and> mode = encodeFragment then False
     else if mode = encodeFragment \<and> c \<in> set ''!()*'' then False
     else True)"

definition ishex :: "char \<Rightarrow> bool" where
  "ishex c = (c \<in> set ''0123456789abcdefABCDEF'')"

definition unhex :: "char \<Rightarrow> nat" where
  "unhex c = (case map_of (zip ''0123456789abcdefABCDEF''
                 [0, 1, 2, 3, 4, 5, 6, 7, 8, 9, 10, 11, 12, 13, 14, 15, 10, 11, 12, 13, 14, 15]) c of
                Some n \<Rightarrow> n | None \<Rightarrow> 0)"

fun unescape :: "string \<Rightarrow> encoding \<Rightarrow> string option" where
  "unescape [] mode = Some []"
| "unescape (c # cs) mode =
    (if c = CHR ''%'' then
       (case cs of
          h # l # after \<Rightarrow>
            if \<not> ishex h \<or> \<not> ishex l then None
            else if mode = encodeHost \<and> unhex h < 8 \<and> [h, l] \<noteq> ''25'' then None
            else if mode = encodeZone \<and> [h, l] \<noteq> ''25'' \<and> char_of (unhex h * 16 + unhex l) \<noteq> CHR '' ''
                    \<and> shouldEscape (char_of (unhex h * 16 + unhex l)) encodeHost then None
            else map_option (\<lambda>r. char_of (unhex h * 16 + unhex l) # r) (unescape after mode)
        | _ \<Rightarrow> None)
     else if (mode = encodeHost \<or> mode = encodeZone) \<and> of_char c < (128::nat) \<and> shouldEscape c encodeHost
       then None
     else map_option (\<lambda>r. (if c = CHR ''+'' \<and> mode = encodeQueryComponent then CHR '' '' else c) # r)
            (unescape cs mode))"

definition upperhex :: "nat \<Rightarrow> char" where
  "upperhex n = ''0123456789ABCDEF'' ! n"

definition escape :: "string \<Rightarrow> encoding \<Rightarrow> string" where
  "escape s mode = concat (map (\<lambda>c.
      if shouldEscape c mode then
        (if c = CHR '' '' \<and> mode = encodeQueryComponent then ''+''
         else [CHR ''%'', upperhex (of_char c div 16), upperhex (of_char c mod 16)])
      else [c]) s)"


definition validEncoded :: "string \<Rightarrow> encoding \<Rightarrow> bool" where
  "validEncoded s mode =
    list_all (\<lambda>c. c \<in> set (''!$&'' @ [CHR 0x27] @ ''()*+,;=:@[]%'') \<or> \<not> shouldEscape c mode) s"

definition setPath :: "URL \<Rightarrow> string \<Rightarrow> URL option" where
  "setPath u p =
    (case unescape p encodePath of
       None \<Rightarrow> None
     | Some path \<Rightarrow>
         Some (u\<lparr>Path := path, RawPath := (if p = escape path encodePath then [] else p)\<rparr>))"

definition setFragment :: "URL \<Rightarrow> string \<Rightarrow> URL option" where
  "setFragment u f =
    (case unescape f encodeFragment of
       None \<Rightarrow> None
     | Some frag \<Rightarrow>
         Some (u\<lparr>Fragment := frag, RawFragment := (if f = escape frag encodeFragment then [] else f)\<rparr>))"

definition EscapedPath :: "URL \<Rightarrow> string" where
  "EscapedPath u =
    (if RawPath u \<noteq> [] \<and> validEncoded (RawPath u) encodePath
        \<and> unescape (RawPath u) encodePath = Some (Path u) then RawPath u
     else if Path u = ''*'' then ''*''
     else escape (Path u) encodePath)"

definition EscapedFragment :: "URL \<Rightarrow> string" where
  "EscapedFragment u =
    (if RawFragment u \<noteq> [] \<and> validEncoded (RawFragment u) encodeFragment
        \<and> unescape (RawFragment u) encodeFragment = Some (Fragment u) then RawFragment u
     else escape (Fragment u) encodeFragment)"

text \<open>\<^verbatim>\<open>strings.Index\<close> and \<^verbatim>\<open>strings.LastIndex\<close> (\<open>None\<close> is -1).\<close>

fun Index :: "string \<Rightarrow> string \<Rightarrow> nat option" where
  "Index [] substr = (if substr = [] then Some 0 else None)"
| "Index (c # cs) substr =
    (if take (length substr) (c # cs) = substr then Some 0 else map_option Suc (Index cs substr))"

definition LastIndexByte :: "string \<Rightarrow> char \<Rightarrow> nat option" where
  "LastIndexByte s c =
    (if c \<in> set s then Some (length s - 1 - length (takeWhile (\<lambda>x. x \<noteq> c) (rev s))) else None)"

definition validOptionalPort :: "string \<Rightarrow> bool" where
  "validOptionalPort port =
    (case port of [] \<Rightarrow> True | c # ds \<Rightarrow> c = CHR '':'' \<and> list_all is_digit ds)"

definition validUserinfo :: "string \<Rightarrow> bool" where
  "validUserinfo s =
    list_all (\<lambda>c. is_upper c \<or> is_lower c \<or> is_digit c
                \<or> c \<in> set (''-._:~!$&'' @ [CHR 0x27] @ ''()*+,;=%@'')) s"

definition parseHost :: "string \<Rightarrow> string option" where
  "parseHost host =
    (if HasPrefix host ''['' then
       (case LastIndexByte host (CHR '']'') of
          None \<Rightarrow> None
        | Some i \<Rightarrow>
            if \<not> validOptionalPort (drop (i + 1) host) then None
            else (case Index (take i host) ''%25'' of
                    Some zone \<Rightarrow>
                      (case (unescape (take zone host) encodeHost,
                             unescape (take (i - zone) (drop zone host)) encodeZone,
                             unescape (drop i host) encodeHost) of
                         (Some host1, Some host2, Some host3) \<Rightarrow> Some (host1 @ host2 @ host3)
                       | _ \<Rightarrow> None)
                  | None \<Rightarrow> unescape host encodeHost))
     else (case LastIndexByte host (CHR '':'') of
             Some i \<Rightarrow> if \<not> validOptionalPort (drop i host) then None else unescape host encodeHost
           | None \<Rightarrow> unescape host encodeHost))"

definition parseAuthority :: "string \<Rightarrow> ((string \<times> string option) option \<times> string) option" where
  "parseAuthority authority =
    (case LastIndexByte authority (CHR ''@'') of
       None \<Rightarrow> map_option (\<lambda>host. (None, host)) (parseHost authority)
     | Some i \<Rightarrow>
         (case parseHost (drop (i + 1) authority) of
            None \<Rightarrow> None
          | Some host \<Rightarrow>
              (let userinfo = take i authority in
               if \<not> validUserinfo userinfo then None
               else if CHR '':'' \<notin> set userinfo then
                 map_option (\<lambda>username. (Some (username, None), host))
                   (unescape userinfo encodeUserPassword)
               else
                 (case (unescape (fst (Cut userinfo (CHR '':''))) encodeUserPassword,
                        unescape (snd (Cut userinfo (CHR '':''))) encodeUserPassword) of
                    (Some username, Some password) \<Rightarrow> Some (Some (username, Some password), host)
                  | _ \<Rightarrow> None))))"

definition zeroURL :: URL where
  "zeroURL = \<lparr>Scheme = [], Opaque = [], Userinfo = None, Host = [], Path = [], RawPath = [],
              OmitHost = False, ForceQuery = False, RawQuery = [], Fragment = [], RawFragment = []\<rparr>"

text \<open>The unexported \<^verbatim>\<open>parse(rawURL, false)\<close>.\<close>

definition parse :: "string \<Rightarrow> URL option" where
  "parse rawURL =
    (if stringContainsCTLByte rawURL then None
     else if rawURL = ''*'' then Some (zeroURL\<lparr>Path := ''*''\<rparr>)
     else case getScheme rawURL of
       None \<Rightarrow> None
     | Some (scheme, rest0) \<Rightarrow>
         (let u1 = zeroURL\<lparr>Scheme := ToLower scheme\<rparr>;
              force = (HasSuffix rest0 ''?'' \<and> count_list rest0 (CHR ''?'') = 1);
              rest = (if force then butlast rest0 else fst (Cut rest0 (CHR ''?'')));
              u2 = (if force then u1\<lparr>ForceQuery := True\<rparr>
                    else u1\<lparr>RawQuery := snd (Cut rest0 (CHR ''?''))\<rparr>)
          in if \<not> HasPrefix rest ''/'' \<and> Scheme u2 \<noteq> [] then Some (u2\<lparr>Opaque := rest\<rparr>)
             else if \<not> HasPrefix rest ''/'' \<and> CHR '':'' \<in> set (fst (Cut rest (CHR ''/''))) then None
             else if (Scheme u2 \<noteq> [] \<or> \<not> HasPrefix rest ''///'') \<and> HasPrefix rest ''//'' then
               (let authority0 = drop 2 rest;
                    authority = takeWhile (\<lambda>c. c \<noteq> CHR ''/'') authority0;
                    rest1 = dropWhile (\<lambda>c. c \<noteq> CHR ''/'') authority0
                in case parseAuthority authority of
                     None \<Rightarrow> None
                   | Some (user, host) \<Rightarrow> setPath (u2\<lparr>Userinfo := user, Host := host\<rparr>) rest1)
             else if Scheme u2 \<noteq> [] \<and> HasPrefix rest ''/'' then setPath (u2\<lparr>OmitHost := True\<rparr>) rest
             else setPath u2 rest))"

text \<open>\<^verbatim>\<open>url.Parse\<close>; \<open>None\<close> is the result \<^verbatim>\<open>(nil, err)\<close>.\<close>

definition go_url_Parse :: "string \<Rightarrow> URL option" where
  "go_url_Parse rawURL =
    (case parse (fst (Cut rawURL (CHR ''#''))) of
       None \<Rightarrow> None
     | Some u \<Rightarrow>
         if snd (Cut rawURL (CHR ''#'')) = [] then Some u
         else setFragment u (snd (Cut rawURL (CHR ''#''))))"

definition Userinfo_String :: "(string \<times> string option) \<Rightarrow> string" where
  "Userinfo_String ui =
    (case ui of
       (username, None) \<Rightarrow> escape username encodeUserPassword
     | (username, Some password) \<Rightarrow>
         escape username encodeUserPassword @ '':'' @ escape password encodeUserPassword)"

text \<open>The method \<^verbatim>\<open>String\<close> of \<^verbatim>\<open>*url.URL\<close>; \<open>buf\<close> is what the builder holds before the path.\<close>

definition go_url_String :: "URL \<Rightarrow> string" where
  "go_url_String u =
    (let buf0 = (if Scheme u \<noteq> [] then Scheme u @ '':'' else [])
     in (if Opaque u \<noteq> [] then buf0 @ Opaque u
         else
           (let buf1 =
                  (if Scheme u \<noteq> [] \<or> Host u \<noteq> [] \<or> Userinfo u \<noteq> None then
                     (if OmitHost u \<and> Host u = [] \<and> Userinfo u = None then buf0
                      else buf0
                        @ (if Host u \<noteq> [] \<or> Path u \<noteq> [] \<or> Userinfo u \<noteq> None then ''//'' else [])
                        @ (case Userinfo u of Some ui \<Rightarrow> Userinfo_String ui @ ''@'' | None \<Rightarrow> [])
                        @ (if Host u \<noteq> [] then escape (Host u) encodeHost else []))
                   else buf0);
                path = EscapedPath u;
                buf2 = (if path \<noteq> [] \<and> hd path \<noteq> CHR ''/'' \<and> Host u \<noteq> [] then buf1 @ ''/'' else buf1);
                buf3 = (if buf2 = [] \<and> CHR '':'' \<in> set (fst (Cut path (CHR ''/''))) then buf2 @ ''./''
                        else buf2)
            in buf3 @ path))
        @ (if ForceQuery u \<or> RawQuery u \<noteq> [] then ''?'' @ RawQuery u else [])
        @ (if Fragment u \<noteq> [] then ''#'' @ EscapedFragment u else []))"

text \<open>
  The functions of the Go libraries and of the sibling package \<^verbatim>\<open>useragent\<close> that the file
  calls are parameters of the model:
  \<^item> \<open>url_Parse\<close> is \<^verbatim>\<open>url.Parse\<close>, with \<open>None\<close> for the result \<^verbatim>\<open>(nil, err)\<close>;
  \<^item> \<open>url_String\<close> is the method \<^verbatim>\<open>String\<close> of \<^verbatim>\<open>*url.URL\<close>;
  \<^item> \<open>http_NewRequest method url\<close> is \<open>Some err\<close> when \<^verbatim>\<open>http.NewRequest\<close> fails;
  \<^item> the three \<open>json_\<close> functions are \<^verbatim>\<open>json.Unmarshal\<close> into a zero value of the three
    response types (\<open>Inl err\<close> when it fails);
  \<^item> \<open>GetUserAgent\<close> is the header text of \<^verbatim>\<open>useragent\<close>.
\<close>

record golib =
  url_Parse :: "string \<Rightarrow> URL option"
  url_String :: "URL \<Rightarrow> string"
  http_NewRequest :: "string \<Rightarrow> string \<Rightarrow> error option"
  json_applicationResponse :: "string \<Rightarrow> error + applicationResponse"
  json_thirdPartyAPIResult :: "string \<Rightarrow> error + thirdPartyAPIResult"
  json_StatusURLResult :: "string \<Rightarrow> error + StatusURLResult"
  GetUserAgent :: "Agent \<Rightarrow> string"

text \<open>
  A request as the file builds it, and what \<^verbatim>\<open>client.Do\<close> gives back: an error, or a
  response with its status code, its status text and its body. \<open>Body b e\<close> is what reading
  the body to its end returns: the bytes read and the error, if any.
\<close>

record request =
  req_Method :: string
  req_URL :: string
  req_Body :: string
  req_BasicAuth :: "string \<times> string"
  req_UserAgent :: string
  req_ContentType :: "string option"

datatype body = Body string "error option"

datatype exchange = DoError error | Response int string body

text \<open>
  The network answers the request \<open>req\<close>, sent after \<open>n\<close> earlier requests, with
  \<open>net n req\<close>.
\<close>

type_synonym network = "nat \<Rightarrow> request \<Rightarrow> exchange"

subsection \<open>The state\<close>

text \<open>
  \<open>server\<close> is the \<^verbatim>\<open>Server\<close> the methods are called on (\<^verbatim>\<open>*i\<close>), \<open>statusURLResp\<close> the
  package-level variable, \<open>sent\<close> the requests handed to \<^verbatim>\<open>client.Do\<close> so far, oldest first.
  The last two fields describe \<^verbatim>\<open>finishedChan\<close>, the unbuffered channel of the running
  audit: \<open>caller\<close> is \<open>None\<close> while the caller of \<^verbatim>\<open>audit\<close> waits in \<^verbatim>\<open>r := <-finishedChan\<close>,
  and afterwards holds what it returns, the \<^verbatim>\<open>statusURLResp\<close> it reads and the value it
  received; \<open>signals\<close> counts the send statements on the channel that the polling goroutine
  has reached.
\<close>

record state =
  server :: Server
  statusURLResp :: StatusURLResult
  sent :: "request list"
  caller :: "(StatusURLResult \<times> resultError) option"
  signals :: nat

subsection \<open>Resolving the internal application ID\<close>

text \<open>A Go result \<^verbatim>\<open>(string, error)\<close> is a pair; \<open>None\<close> is the nil error.\<close>

definition getInternalApplicationID ::
  "golib \<Rightarrow> network \<Rightarrow> string \<Rightarrow> state \<Rightarrow> (string \<times> error option) \<times> state" where
  "getInternalApplicationID L net applicationID s =
    (let i = server s;
         url = Server (Options i) @ internalApplicationIDURL @ applicationID
     in case http_NewRequest L ''GET'' url of
       Some e \<Rightarrow>
         (([], Some (ServerError (Some e) ''Request to get internal application id failed'')), s)
     | None \<Rightarrow>
         (let req = \<lparr>req_Method = ''GET'', req_URL = url, req_Body = [],
                     req_BasicAuth = (User (Options i), Token (Options i)),
                     req_UserAgent = GetUserAgent L (agent i), req_ContentType = None\<rparr>;
              s1 = s\<lparr>sent := sent s @ [req]\<rparr>
          in case net (length (sent s)) req of
            DoError e \<Rightarrow>
              (([], Some (ServerError (Some e)
                 ''There was an error communicating with Nexus IQ Server to get your internal application ID'')), s1)
          | Response StatusCode Status (Body bodyBytes readErr) \<Rightarrow>
              if StatusCode = 402 then (([], Some ServerErrorMissingLicense), s1)
              else if StatusCode = 200 then
                (case readErr of
                   Some e \<Rightarrow>
                     (([], Some (ServerError (Some e)
                        ''There was an error retrieving the bytes of the response for getting your internal application ID from Nexus IQ Server'')), s1)
                 | None \<Rightarrow>
                     (case json_applicationResponse L bodyBytes of
                        Inl e \<Rightarrow> (([], Some (ServerError (Some e) ''failed to unmarshal response'')), s1)
                      | Inr response \<Rightarrow>
                          (case Applications response of
                             a # _ \<Rightarrow> ((ID a, None), s1)
                           | [] \<Rightarrow>
                               (([], Some (ServerError
                                  (Some (GoError (''Unable to retrieve an internal ID for the specified public application ID: '' @ applicationID)))
                                  ''Unable to retrieve an internal ID'')), s1))))
              else
                (([], Some (ServerError
                   (Some (GoError (''unable to communicate with Nexus IQ Server, status code: '' @ show_int StatusCode
                      @ '', status: '' @ Status @ '', body: '' @ bodyBytes)))
                   ''Unable to communicate with Nexus IQ Server'')), s1)))"

subsection \<open>Submitting the SBOM\<close>

definition submitToThirdPartyAPI ::
  "golib \<Rightarrow> network \<Rightarrow> string \<Rightarrow> string \<Rightarrow> state \<Rightarrow> (string \<times> error option) \<times> state" where
  "submitToThirdPartyAPI L net sbom internalID s =
    (let i = server s;
         url = Server (Options i) @ (thirdPartyAPILeft @ internalID @ thirdPartyAPIRight @ Stage (Options i))
     in case http_NewRequest L ''POST'' url of
       Some e \<Rightarrow> (([], Some (ServerError (Some e) ''Could not POST to Nexus iQ Third Party API'')), s)
     | None \<Rightarrow>
         (let req = \<lparr>req_Method = ''POST'', req_URL = url, req_Body = sbom,
                     req_BasicAuth = (User (Options i), Token (Options i)),
                     req_UserAgent = GetUserAgent L (agent i),
                     req_ContentType = Some ''application/xml''\<rparr>;
              s1 = s\<lparr>sent := sent s @ [req]\<rparr>
          in case net (length (sent s)) req of
            DoError e \<Rightarrow>
              (([], Some (ServerError (Some e)
                 ''There was an issue communicating with the Nexus IQ Third Party API'')), s1)
          | Response StatusCode Status (Body bodyBytes readErr) \<Rightarrow>
              if StatusCode = 202 then
                (case readErr of
                   Some e \<Rightarrow>
                     (([], Some (ServerError (Some e)
                        ''There was an issue submitting your sbom to the Nexus IQ Third Party API'')), s1)
                 | None \<Rightarrow>
                     (case json_thirdPartyAPIResult L bodyBytes of
                        Inl e \<Rightarrow>
                          (([], Some (ServerError (Some e) ''Could not unmarshal response from IQ server'')), s1)
                      | Inr response \<Rightarrow> ((StatusURL response, None), s1)))
              else
                (([], Some (ServerError
                   (Some (GoError (''status_code: '' @ show_int StatusCode @ '', body: '' @ bodyBytes
                      @ '', err: '' @ (case readErr of None \<Rightarrow> ''<nil>'' | Some e \<Rightarrow> Error e))))
                   ''There was an issue submitting your sbom to the Nexus IQ Third Party API'')), s1)))"

subsection \<open>The completion channel\<close>

text \<open>
  The polling goroutine either goes on (\<open>Return\<close>), or blocks for ever in a send that
  nobody receives (\<open>Blocked\<close>), or panics (\<open>Panicked\<close>).
\<close>

datatype 'a outcome = Return 'a state | Blocked state | Panicked state

text \<open>
  \<^verbatim>\<open>finished <- r\<close>. The channel is unbuffered and its only receiver is the caller of
  \<^verbatim>\<open>audit\<close>, which receives once: the first send hands \<open>r\<close> over, and the caller returns
  with it and with the \<^verbatim>\<open>statusURLResp\<close> of that moment; every later send blocks for ever.
  (Go gives no order between the caller's read of \<^verbatim>\<open>statusURLResp\<close> and what the goroutine
  writes to it after the send; the model lets the caller read first. The two differ only
  for an answer with \<^verbatim>\<open>isError\<close> set, where the absolute URL is written after the first send.)
\<close>

definition send :: "resultError \<Rightarrow> state \<Rightarrow> unit outcome" where
  "send r s =
    (let s1 = s\<lparr>signals := signals s + 1\<rparr>
     in case caller s of
          None \<Rightarrow> Return () (s1\<lparr>caller := Some (statusURLResp s, r)\<rparr>)
        | Some _ \<Rightarrow> Blocked s1)"

subsection \<open>The absolute report URL\<close>

text \<open>\<^verbatim>\<open>strings.TrimRight\<close> and \<^verbatim>\<open>strings.TrimLeft\<close>: the characters of the cutset go.\<close>

definition TrimLeft :: "string \<Rightarrow> string \<Rightarrow> string" where
  "TrimLeft s cutset = dropWhile (\<lambda>c. c \<in> set cutset) s"

definition TrimRight :: "string \<Rightarrow> string \<Rightarrow> string" where
  "TrimRight s cutset = rev (dropWhile (\<lambda>c. c \<in> set cutset) (rev s))"

text \<open>
  The method works on the package-level \<^verbatim>\<open>statusURLResp\<close>, whatever its receiver. The error
  of \<^verbatim>\<open>url.Parse\<close> is dropped; when parsing fails \<^verbatim>\<open>parsedReportURL\<close> is nil and the call
  \<^verbatim>\<open>parsedReportURL.IsAbs()\<close> reads a field through it, which panics.
\<close>

definition populateAbsoluteURL :: "golib \<Rightarrow> string \<Rightarrow> state \<Rightarrow> unit outcome" where
  "populateAbsoluteURL L iqServerBaseURL s =
    (case url_Parse L (ReportHTMLURL (statusURLResp s)) of
       None \<Rightarrow> Panicked s
     | Some parsedReportURL \<Rightarrow>
         if IsAbs parsedReportURL
         then Return () (s\<lparr>statusURLResp :=
                (statusURLResp s)\<lparr>AbsoluteReportHTMLURL := url_String L parsedReportURL\<rparr>\<rparr>)
         else Return () (s\<lparr>statusURLResp :=
                (statusURLResp s)\<lparr>AbsoluteReportHTMLURL :=
                   TrimRight iqServerBaseURL ''/'' @ ''/'' @ TrimLeft (Path parsedReportURL) ''/''\<rparr>\<rparr>))"

subsection \<open>Polling\<close>

text \<open>
  One call of \<^verbatim>\<open>pollIQServer\<close>. The field \<^verbatim>\<open>AbsoluteReportHTMLURL\<close> has the tag \<^verbatim>\<open>json:"-"\<close>,
  so it is empty in what \<^verbatim>\<open>json.Unmarshal\<close> fills. The \<^verbatim>\<open>err\<close> returned at the end is the one
  of \<^verbatim>\<open>client.Do\<close>, which is nil there.
\<close>

definition pollIQServer :: "golib \<Rightarrow> network \<Rightarrow> string \<Rightarrow> state \<Rightarrow> error option outcome" where
  "pollIQServer L net statusURL s =
    (let i = server s in
     if tries i > MaxRetries (Options i) then
       (let e = GoError (''exceeded max retries: '' @ show_int (MaxRetries (Options i)))
        in case send \<lparr>finished = True, err = Some e\<rparr> s of
             Return _ s1 \<Rightarrow> Return (Some (ServerError (Some e) ''exceeded max retries'')) s1
           | Blocked s1 \<Rightarrow> Blocked s1
           | Panicked s1 \<Rightarrow> Panicked s1)
     else case http_NewRequest L ''GET'' statusURL of
       Some e \<Rightarrow> Return (Some (ServerError (Some e) ''Could not poll IQ server'')) s
     | None \<Rightarrow>
         (let req = \<lparr>req_Method = ''GET'', req_URL = statusURL, req_Body = [],
                     req_BasicAuth = (User (Options i), Token (Options i)),
                     req_UserAgent = GetUserAgent L (agent i), req_ContentType = None\<rparr>;
              s1 = s\<lparr>sent := sent s @ [req]\<rparr>
          in case net (length (sent s)) req of
            DoError e \<Rightarrow>
              (case send \<lparr>finished = True, err = Some e\<rparr> s1 of
                 Return _ s2 \<Rightarrow>
                   Return (Some (ServerError (Some e) ''There was an error polling Nexus IQ Server'')) s2
               | Blocked s2 \<Rightarrow> Blocked s2
               | Panicked s2 \<Rightarrow> Panicked s2)
          | Response StatusCode Status (Body bodyBytes readErr) \<Rightarrow>
              if StatusCode = 200 then
                (case readErr of
                   Some e \<Rightarrow>
                     Return (Some (ServerError (Some e)
                       ''There was an error with processing the response from polling Nexus IQ Server'')) s1
                 | None \<Rightarrow>
                     (case json_StatusURLResult L bodyBytes of
                        Inl e \<Rightarrow>
                          Return (Some (ServerError (Some e) ''Could not unmarshal response from IQ server'')) s1
                      | Inr decoded \<Rightarrow>
                          (let response = decoded\<lparr>AbsoluteReportHTMLURL := []\<rparr>;
                               s2 = s1\<lparr>statusURLResp := response\<rparr>
                           in case (if IsError response
                                    then send \<lparr>finished = True, err = None\<rparr> s2
                                    else Return () s2) of
                                Blocked s3 \<Rightarrow> Blocked s3
                              | Panicked s3 \<Rightarrow> Panicked s3
                              | Return _ s3 \<Rightarrow>
                                  (case populateAbsoluteURL L (Server (Options i)) s3 of
                                     Blocked s4 \<Rightarrow> Blocked s4
                                   | Panicked s4 \<Rightarrow> Panicked s4
                                   | Return _ s4 \<Rightarrow>
                                       (case send \<lparr>finished = True, err = None\<rparr> s4 of
                                          Blocked s5 \<Rightarrow> Blocked s5
                                        | Panicked s5 \<Rightarrow> Panicked s5
                                        | Return _ s5 \<Rightarrow>
                                            Return None
                                              (s5\<lparr>server := (server s5)\<lparr>tries := tries (server s5) + 1\<rparr>\<rparr>))))))
              else Return None (s1\<lparr>server := (server s1)\<lparr>tries := tries (server s1) + 1\<rparr>\<rparr>)))"

text \<open>
  The goroutine that \<^verbatim>\<open>audit\<close> starts. Its \<^verbatim>\<open>select\<close> always takes the default branch: the
  case \<^verbatim>\<open><-finishedChan\<close> would need a sender, and the only sender is the goroutine itself.
  With \<open>Return\<close> the goroutine has returned, and its deferred \<^verbatim>\<open>close(finishedChan)\<close> has run.
\<close>

function audit_goroutine :: "golib \<Rightarrow> network \<Rightarrow> string \<Rightarrow> state \<Rightarrow> unit outcome" where
  "audit_goroutine L net statusURL s =
    (case pollIQServer L net (Server (Options (server s)) @ ''/'' @ statusURL) s of
       Return errPoll s1 \<Rightarrow>
         (case errPoll of
            Some e \<Rightarrow> send \<lparr>finished = True, err = Some e\<rparr> s1
          | None \<Rightarrow> audit_goroutine L net statusURL s1)
     | Blocked s1 \<Rightarrow> Blocked s1
     | Panicked s1 \<Rightarrow> Panicked s1)"
  by pat_completeness auto
termination
proof (relation "measure (\<lambda>(L, net, statusURL, s).
         nat (MaxRetries (Options (server s)) + 1 - tries (server s)))", goal_cases)
  case 1
  show ?case by simp
next
  case (2 L net statusURL s x1 s1)
  then show ?case
    by (auto simp: pollIQServer_def send_def populateAbsoluteURL_def Let_def
             split: if_splits option.splits exchange.splits body.splits sum.splits outcome.splits)
qed

declare audit_goroutine.simps [simp del]

subsection \<open>The audit\<close>

text \<open>
  How the polling goroutine of an audit ends: it was never started, it returned, it blocks for
  ever in a send, or it panicked (which ends the whole process).
\<close>

datatype poller = Unstarted | Exited | Leaked | Crashed

text \<open>The state an outcome ends in.\<close>

fun state_of :: "'a outcome \<Rightarrow> state" where
  "state_of (Return _ s) = s"
| "state_of (Blocked s) = s"
| "state_of (Panicked s) = s"

fun poller_of :: "'a outcome \<Rightarrow> poller" where
  "poller_of (Return _ _) = Exited"
| "poller_of (Blocked _) = Leaked"
| "poller_of (Panicked _) = Crashed"

definition zeroStatusURLResult :: StatusURLResult where
  "zeroStatusURLResult = \<lparr>PolicyAction = [], ReportHTMLURL = [], AbsoluteReportHTMLURL = [],
                           IsError = False, ErrorMessage = []\<rparr>"

text \<open>
  \<^verbatim>\<open>audit\<close> gives three things: what the caller gets back (\<open>None\<close> when the call never
  returns, because the goroutine panicked before it sent anything), how the goroutine ends,
  and the state once the goroutine has come to rest. The goroutine is run to its end; in Go
  the caller goes on as soon as it has received, while the goroutine is still running.
\<close>

definition audit ::
  "golib \<Rightarrow> network \<Rightarrow> string \<Rightarrow> string \<Rightarrow> state
     \<Rightarrow> (StatusURLResult \<times> error option) option \<times> poller \<times> state" where
  "audit L net sbom internalID s =
    (case submitToThirdPartyAPI L net sbom internalID s of
       ((statusURL, Some e), s1) \<Rightarrow>
         (Some (statusURLResp s1,
            Some (ServerError (Some e) ''There was an issue submitting to the Third Party API'')),
          Unstarted, s1)
     | ((statusURL, None), s1) \<Rightarrow>
         if statusURL = [] then
           (Some (statusURLResp s1,
              Some (ServerError
                (Some (GoError (''There was an issue submitting your sbom to the Nexus IQ Third Party API, sbom: '' @ sbom)))
                ''There was an issue obtaining a StatusURL'')),
            Unstarted, s1)
         else
           (let s2 = s1\<lparr>statusURLResp := zeroStatusURLResult, caller := None, signals := 0\<rparr>;
                g = audit_goroutine L net statusURL s2
            in (map_option (\<lambda>(status, r). (status, err r)) (caller (state_of g)),
                poller_of g, state_of g)))"

definition AuditWithSbom ::
  "golib \<Rightarrow> network \<Rightarrow> string \<Rightarrow> state
     \<Rightarrow> (StatusURLResult \<times> error option) option \<times> poller \<times> state" where
  "AuditWithSbom L net sbom s =
    (case getInternalApplicationID L net (Application (Options (server s))) s of
       ((internalID, e), s1) \<Rightarrow>
         if internalID = [] \<and> e \<noteq> None then (Some (statusURLResp s1, e), Unstarted, s1)
         else audit L net sbom internalID s1)"

text \<open>
  The goroutine of an audit goes on after its caller has returned, so the calls of successive
  audits with one client overlap. A \<open>call\<close> is one call that reads or writes the client: the
  lookup, the submission, or a poll made by the goroutine of some audit, whose channel is in
  the state \<open>ch\<close> (\<open>None\<close> while its caller still waits). \<open>after_calls\<close> is the state after a
  list of such calls, in the order in which they happen, each call taken as a whole.
\<close>

datatype call =
    ResolveCall string
  | SubmitCall string string
  | PollCall string "(StatusURLResult \<times> resultError) option"

fun after_call :: "golib \<Rightarrow> network \<Rightarrow> call \<Rightarrow> state \<Rightarrow> state" where
  "after_call L net (ResolveCall applicationID) s = snd (getInternalApplicationID L net applicationID s)"
| "after_call L net (SubmitCall sbom internalID) s = snd (submitToThirdPartyAPI L net sbom internalID s)"
| "after_call L net (PollCall statusURL ch) s = state_of (pollIQServer L net statusURL (s\<lparr>caller := ch\<rparr>))"

fun after_calls :: "golib \<Rightarrow> network \<Rightarrow> call list \<Rightarrow> state \<Rightarrow> state" where
  "after_calls L net [] s = s"
| "after_calls L net (c # cs) s = after_calls L net cs (after_call L net c s)"

subsection \<open>The three requests\<close>

text \<open>
  Names for the requests that \<open>getInternalApplicationID\<close>, \<open>submitToThirdPartyAPI\<close> and
  \<open>pollIQServer\<close> build for the client \<open>i\<close>; the properties below use them to say what the
  server answers.
\<close>

abbreviation applications_request :: "golib \<Rightarrow> Server \<Rightarrow> string \<Rightarrow> request" where
  "applications_request L i applicationID \<equiv>
    \<lparr>req_Method = ''GET'',
     req_URL = Server (Options i) @ internalApplicationIDURL @ applicationID,
     req_Body = [],
     req_BasicAuth = (User (Options i), Token (Options i)),
     req_UserAgent = GetUserAgent L (agent i), req_ContentType = None\<rparr>"

abbreviation scan_request :: "golib \<Rightarrow> Server \<Rightarrow> string \<Rightarrow> string \<Rightarrow> request" where
  "scan_request L i sbom internalID \<equiv>
    \<lparr>req_Method = ''POST'',
     req_URL = Server (Options i)
                 @ (thirdPartyAPILeft @ internalID @ thirdPartyAPIRight @ Stage (Options i)),
     req_Body = sbom,
     req_BasicAuth = (User (Options i), Token (Options i)),
     req_UserAgent = GetUserAgent L (agent i), req_ContentType = Some ''application/xml''\<rparr>"

abbreviation status_request :: "golib \<Rightarrow> Server \<Rightarrow> string \<Rightarrow> request" where
  "status_request L i statusURL \<equiv>
    \<lparr>req_Method = ''GET'', req_URL = statusURL, req_Body = [],
     req_BasicAuth = (User (Options i), Token (Options i)),
     req_UserAgent = GetUserAgent L (agent i), req_ContentType = None\<rparr>"

subsection \<open>A library, a client and servers for the examples\<close>

text \<open>
  The closed examples run the model with \<^verbatim>\<open>net/url\<close> as modelled above, with requests that
  are always built, and with JSON decoders that are defined as far as the examples need
  them: they decode the bodies the example servers send as \<^verbatim>\<open>encoding/json\<close> does, and report
  an error for every other body.
\<close>

definition example_lib :: golib where
  \<open>example_lib =
    \<lparr>url_Parse = go_url_Parse,
     url_String = go_url_String,
     http_NewRequest = (\<lambda>method url. None),
     json_applicationResponse = (\<lambda>b.
        if b = ''{"applications":[{"id":"42"},{"id":"43"}]}''
          then Inr \<lparr>Applications = [\<lparr>ID = ''42''\<rparr>, \<lparr>ID = ''43''\<rparr>]\<rparr>
        else if b = ''{"applications":[]}'' then Inr \<lparr>Applications = []\<rparr>
        else Inl (GoError ''unexpected end of JSON input'')),
     json_thirdPartyAPIResult = (\<lambda>b.
        if b = ''{"statusUrl":"abc"}'' then Inr \<lparr>StatusURL = ''abc''\<rparr>
        else if b = ''{"statusUrl":""}'' then Inr \<lparr>StatusURL = []\<rparr>
        else Inl (GoError ''unexpected end of JSON input'')),
     json_StatusURLResult = (\<lambda>b.
        if b = ''{"policyAction":"Warning","reportHtmlUrl":"/report/42","isError":false}''
          then Inr \<lparr>PolicyAction = ''Warning'', ReportHTMLURL = ''/report/42'',
                    AbsoluteReportHTMLURL = [], IsError = False, ErrorMessage = []\<rparr>
        else if b = ''{"isError":true,"errorMessage":"scan failed"}''
          then Inr \<lparr>PolicyAction = [], ReportHTMLURL = [], AbsoluteReportHTMLURL = [],
                    IsError = True, ErrorMessage = ''scan failed''\<rparr>
        else if b = ''{"policyAction":"None","reportHtmlUrl":":","isError":false}''
          then Inr \<lparr>PolicyAction = ''None'', ReportHTMLURL = '':'',
                    AbsoluteReportHTMLURL = [], IsError = False, ErrorMessage = []\<rparr>
        else Inl (GoError ''unexpected end of JSON input'')),
     GetUserAgent = (\<lambda>a. ClientTool a @ ''/'' @ AgentVersion a)\<rparr>\<close>

definition example_options :: Options where
  "example_options =
    \<lparr>User = ''admin'', Token = ''admin123'', Stage = ''develop'', Application = ''app'',
     Server = ''http://server'', MaxRetries = 2, Tool = ''nancy-client'', Version = ''1.0.0'',
     OSSIndexUser = [], OSSIndexToken = [], DBCacheName = [], TTL = 1, PollInterval = 1000000000\<rparr>"

text \<open>The state right after \<open>New\<close> has built the client from \<open>example_options\<close>.\<close>

definition example_state :: state where
  "example_state =
    \<lparr>server = \<lparr>Options = example_options, logLady = Logger,
               agent = \<lparr>ClientTool = ''nancy-client'', AgentVersion = ''1.0.0''\<rparr>, tries = 0\<rparr>,
     statusURLResp = zeroStatusURLResult, sent = [], caller = None, signals = 0\<rparr>"

text \<open>
  A server that accepts every submission with the status URL \<^verbatim>\<open>abc\<close> and answers every other
  request (every poll) with \<open>x\<close>.
\<close>

definition accepting_server :: "exchange \<Rightarrow> network" where
  \<open>accepting_server x n req =
    (if req_Method req = ''POST''
     then Response 202 ''202 Accepted'' (Body ''{"statusUrl":"abc"}'' None)
     else x)\<close>

definition connection_refused :: exchange where
  "connection_refused = DoError (GoError ''dial tcp: connection refused'')"

definition service_unavailable :: exchange where
  "service_unavailable = Response 503 ''503 Service Unavailable'' (Body [] None)"

definition scan_failed :: exchange where
  \<open>scan_failed = Response 200 ''200 OK'' (Body ''{"isError":true,"errorMessage":"scan failed"}'' None)\<close>

definition scan_done :: exchange where
  \<open>scan_done = Response 200 ''200 OK''
     (Body ''{"policyAction":"Warning","reportHtmlUrl":"/report/42","isError":false}'' None)\<close>

definition scan_done_bad_url :: exchange where
  \<open>scan_done_bad_url = Response 200 ''200 OK''
     (Body ''{"policyAction":"None","reportHtmlUrl":":","isError":false}'' None)\<close>

text \<open>An audit of the example client against such a server.\<close>

definition example_audit ::
  "exchange \<Rightarrow> (StatusURLResult \<times> error option) option \<times> poller \<times> state" where
  "example_audit x = audit example_lib (accepting_server x) ''<bom/>'' ''42'' example_state"

section \<open>Properties\<close>

text \<open>The definitions that the closed examples unfold.\<close>

lemmas go_url_defs = go_url_Parse_def parse_def Cut_def getScheme_def stringContainsCTLByte_def
  ToLower_def is_lower_def is_upper_def is_digit_def HasSuffix_def HasPrefix_def setPath_def
  setFragment_def escape_def shouldEscape_def parseAuthority_def parseHost_def LastIndexByte_def
  zeroURL_def go_url_String_def EscapedPath_def EscapedFragment_def validEncoded_def
  validOptionalPort_def

lemmas example_defs = example_lib_def example_state_def example_options_def accepting_server_def
  example_audit_def
  connection_refused_def service_unavailable_def scan_failed_def scan_done_def
  scan_done_bad_url_def zeroStatusURLResult_def

lemmas run_defs = audit_def submitToThirdPartyAPI_def audit_goroutine.simps pollIQServer_def
  send_def populateAbsoluteURL_def IsAbs_def TrimLeft_def TrimRight_def Let_def show_int_def

lemma show_int_2: "show_int 2 = ''2''"
  by (simp add: show_int_def)

subsection \<open>Construction\<close>

text \<open>
  C6. When the application name, the server address, the user or the token is empty,
  \<open>New\<close> returns an error and no \<open>Server\<close>; with a logger, the error is
  \<^verbatim>\<open>missing options.<name>\<close> for the first empty field in the order Application, Server,
  User, Token. \<open>New\<close> takes no network and the methods that call the server need the
  \<open>Server\<close> that was not built, so the failure comes before any network call.
\<close>

theorem New_missing_required_option:
  assumes "Application options = [] \<or> Server options = [] \<or> User options = [] \<or> Token options = []"
  shows "(\<exists>err. New logger options now = Normal (Inl err)) \<and>
         (\<forall>lg. logger = Some lg \<longrightarrow>
            New logger options now = Normal (Inl (GoError (''missing options.'' @
              (if Application options = [] then ''Application''
               else if Server options = [] then ''Server''
               else if User options = [] then ''User'' else ''Token'')))))"
  using assms
  by (cases logger)
     (auto simp: New_def validateRequiredOption_def FieldByName_IsZero_def)

theorem New_missing_required_option_witness:
  "New (Some Logger)
     \<lparr>User = ''admin'', Token = ''admin123'', Stage = ''develop'', Application = [],
      Server = ''http://localhost:8070'', MaxRetries = 300, Tool = ''nancy-client'',
      Version = ''1.0.0'', OSSIndexUser = [], OSSIndexToken = [], DBCacheName = [],
      TTL = 0, PollInterval = 0\<rparr> 0
   = Normal (Inl (GoError ''missing options.Application''))"
  using New_missing_required_option [of
     "\<lparr>User = ''admin'', Token = ''admin123'', Stage = ''develop'', Application = [],
      Server = ''http://localhost:8070'', MaxRetries = 300, Tool = ''nancy-client'',
      Version = ''1.0.0'', OSSIndexUser = [], OSSIndexToken = [], DBCacheName = [],
      TTL = 0, PollInterval = 0\<rparr>" "Some Logger" 0]
  by simp

subsection \<open>Resolving the internal application ID\<close>

text \<open>
  C8. When the server answers the lookup with status 402 (Payment Required),
  \<open>getInternalApplicationID\<close> returns the error \<open>ServerErrorMissingLicense\<close> (and the empty
  ID), whatever the status text and the body are, whether the body can be read or not, and
  whatever the JSON decoder would make of it: the body is not consulted.
\<close>

theorem getInternalApplicationID_missing_license:
  assumes "http_NewRequest L ''GET''
             (Server (Options (server s)) @ internalApplicationIDURL @ applicationID) = None"
    and "net (length (sent s)) (applications_request L (server s) applicationID)
           = Response 402 status b"
  shows "fst (getInternalApplicationID L net applicationID s) = ([], Some ServerErrorMissingLicense)"
  using assms by (cases b) (simp add: getInternalApplicationID_def Let_def)

theorem getInternalApplicationID_missing_license_witness:
  \<open>fst (getInternalApplicationID example_lib
          (\<lambda>n req. Response 402 ''402 Payment Required''
                      (Body ''{"applications":[{"id":"42"},{"id":"43"}]}'' None))
          ''app'' example_state)
   = ([], Some ServerErrorMissingLicense)\<close>
  by (rule getInternalApplicationID_missing_license) (simp_all add: example_lib_def)

text \<open>
  C7. When the server answers the lookup with status 200 and a body whose list of applications
  is empty (an absent list decodes to the empty list as well), \<open>getInternalApplicationID\<close>
  returns no identifier but the error \<^verbatim>\<open>Unable to retrieve an internal ID\<close>, which names the
  public application ID.
\<close>

theorem getInternalApplicationID_no_applications:
  assumes "http_NewRequest L ''GET''
             (Server (Options (server s)) @ internalApplicationIDURL @ applicationID) = None"
    and "net (length (sent s)) (applications_request L (server s) applicationID)
           = Response 200 status (Body bodyBytes None)"
    and "json_applicationResponse L bodyBytes = Inr response"
    and "Applications response = []"
  shows "fst (getInternalApplicationID L net applicationID s) =
           ([], Some (ServerError
              (Some (GoError (''Unable to retrieve an internal ID for the specified public application ID: ''
                               @ applicationID)))
              ''Unable to retrieve an internal ID''))"
  using assms by (simp add: getInternalApplicationID_def Let_def)

theorem getInternalApplicationID_no_applications_witness:
  \<open>fst (getInternalApplicationID example_lib
          (\<lambda>n req. Response 200 ''200 OK'' (Body ''{"applications":[]}'' None))
          ''app'' example_state)
   = ([], Some (ServerError
        (Some (GoError ''Unable to retrieve an internal ID for the specified public application ID: app''))
        ''Unable to retrieve an internal ID''))\<close>
  using getInternalApplicationID_no_applications [of example_lib example_state "''app''"
      "\<lambda>n req. Response 200 ''200 OK'' (Body ''{\"applications\":[]}'' None)" "''200 OK''"
      "''{\"applications\":[]}''" "\<lparr>Applications = []\<rparr>"]
  by (simp add: example_lib_def)

text \<open>
  C10. When the list of applications in the answer is not empty, the internal ID returned is
  the ID of its first element, whatever follows it in the list.
\<close>

theorem getInternalApplicationID_first_application:
  assumes "http_NewRequest L ''GET''
             (Server (Options (server s)) @ internalApplicationIDURL @ applicationID) = None"
    and "net (length (sent s)) (applications_request L (server s) applicationID)
           = Response 200 status (Body bodyBytes None)"
    and "json_applicationResponse L bodyBytes = Inr response"
    and "Applications response = a # others"
  shows "fst (getInternalApplicationID L net applicationID s) = (ID a, None)"
  using assms by (simp add: getInternalApplicationID_def Let_def)

theorem getInternalApplicationID_first_application_witness:
  \<open>fst (getInternalApplicationID example_lib
          (\<lambda>n req. Response 200 ''200 OK'' (Body ''{"applications":[{"id":"42"},{"id":"43"}]}'' None))
          ''app'' example_state)
   = (''42'', None)\<close>
  using getInternalApplicationID_first_application [of example_lib example_state "''app''"
      "\<lambda>n req. Response 200 ''200 OK'' (Body ''{\"applications\":[{\"id\":\"42\"},{\"id\":\"43\"}]}'' None)"
      "''200 OK''" "''{\"applications\":[{\"id\":\"42\"},{\"id\":\"43\"}]}''"
      "\<lparr>Applications = [\<lparr>ID = ''42''\<rparr>, \<lparr>ID = ''43''\<rparr>]\<rparr>" "\<lparr>ID = ''42''\<rparr>" "[\<lparr>ID = ''43''\<rparr>]"]
  by (simp add: example_lib_def)

subsection \<open>Submitting\<close>

text \<open>
  C5. \<open>submitToThirdPartyAPI\<close> returns a handle with a nil error only when the server answered
  the submission with status 202 (Accepted), and the handle is then the \<^verbatim>\<open>statusUrl\<close> decoded from
  the body. With status 202 and the body \<^verbatim>\<open>{"statusUrl":"abc"}\<close> the handle is \<^verbatim>\<open>abc\<close>. With
  status 202 and an empty \<^verbatim>\<open>statusUrl\<close>, \<open>audit\<close> returns the error
  \<^verbatim>\<open>There was an issue obtaining a StatusURL\<close>; the polling goroutine is never started and the
  submission is the only request sent.
\<close>

theorem submitToThirdPartyAPI_handle:
  \<open>(\<forall>handle. fst (submitToThirdPartyAPI L net sbom internalID s) = (handle, None) \<longrightarrow>
      (\<exists>status bodyBytes.
          net (length (sent s)) (scan_request L (server s) sbom internalID)
            = Response 202 status (Body bodyBytes None) \<and>
          json_thirdPartyAPIResult L bodyBytes = Inr \<lparr>StatusURL = handle\<rparr>))
   \<and> (http_NewRequest L ''POST''
         (Server (Options (server s)) @ thirdPartyAPILeft @ internalID @ thirdPartyAPIRight
            @ Stage (Options (server s))) = None \<longrightarrow>
       net (length (sent s)) (scan_request L (server s) sbom internalID)
         = Response 202 status (Body ''{"statusUrl":"abc"}'' None) \<longrightarrow>
       json_thirdPartyAPIResult L ''{"statusUrl":"abc"}'' = Inr \<lparr>StatusURL = ''abc''\<rparr> \<longrightarrow>
       fst (submitToThirdPartyAPI L net sbom internalID s) = (''abc'', None))
   \<and> (http_NewRequest L ''POST''
         (Server (Options (server s)) @ thirdPartyAPILeft @ internalID @ thirdPartyAPIRight
            @ Stage (Options (server s))) = None \<longrightarrow>
       net (length (sent s)) (scan_request L (server s) sbom internalID)
         = Response 202 status (Body bodyBytes None) \<longrightarrow>
       json_thirdPartyAPIResult L bodyBytes = Inr \<lparr>StatusURL = []\<rparr> \<longrightarrow>
       audit L net sbom internalID s =
         (Some (statusURLResp s,
            Some (ServerError
              (Some (GoError (''There was an issue submitting your sbom to the Nexus IQ Third Party API, sbom: '' @ sbom)))
              ''There was an issue obtaining a StatusURL'')),
          Unstarted, s\<lparr>sent := sent s @ [scan_request L (server s) sbom internalID]\<rparr>))\<close>
  apply (intro conjI allI impI)
    apply (clarsimp simp: submitToThirdPartyAPI_def Let_def split: option.splits exchange.splits body.splits if_splits sum.splits)
   apply (clarsimp simp: submitToThirdPartyAPI_def Let_def)
  apply (clarsimp simp: audit_def submitToThirdPartyAPI_def Let_def)
  done

theorem submitToThirdPartyAPI_handle_witness:
  \<open>fst (submitToThirdPartyAPI example_lib (accepting_server connection_refused) ''<bom/>'' ''42'' example_state)
     = (''abc'', None)
   \<and> fst (audit example_lib
        (\<lambda>n req. Response 202 ''202 Accepted'' (Body ''{"statusUrl":""}'' None)) ''<bom/>'' ''42'' example_state)
     = Some (zeroStatusURLResult,
         Some (ServerError
           (Some (GoError ''There was an issue submitting your sbom to the Nexus IQ Third Party API, sbom: <bom/>''))
           ''There was an issue obtaining a StatusURL''))\<close>
  using submitToThirdPartyAPI_handle [of example_lib "accepting_server connection_refused" "''<bom/>''"
           "''42''" example_state "''202 Accepted''" "[]"]
        submitToThirdPartyAPI_handle [of example_lib
           "\<lambda>n req. Response 202 ''202 Accepted'' (Body ''{\"statusUrl\":\"\"}'' None)" "''<bom/>''"
           "''42''" example_state "''202 Accepted''" "''{\"statusUrl\":\"\"}''"]
  by (simp add: example_lib_def accepting_server_def example_state_def)

subsection \<open>The poll loop\<close>

lemma pollIQServer_exhausted:
  assumes "tries (server s) > MaxRetries (Options (server s))" and "caller s = None"
  shows "pollIQServer L net url s =
    Return (Some (ServerError
              (Some (GoError (''exceeded max retries: '' @ show_int (MaxRetries (Options (server s))))))
              ''exceeded max retries''))
      (s\<lparr>signals := signals s + 1,
         caller := Some (statusURLResp s,
           \<lparr>finished = True,
            err = Some (GoError (''exceeded max retries: '' @ show_int (MaxRetries (Options (server s)))))\<rparr>)\<rparr>)"
  using assms by (simp add: pollIQServer_def send_def Let_def)

lemma pollIQServer_exhausted_sent:
  assumes "tries (server s) > MaxRetries (Options (server s))"
  shows "sent (state_of (pollIQServer L net url s)) = sent s"
  using assms by (simp add: pollIQServer_def send_def Let_def split: option.splits)

lemma pollIQServer_non_OK:
  assumes "tries (server s) \<le> MaxRetries (Options (server s))"
    and "http_NewRequest L ''GET'' url = None"
    and "net (length (sent s)) (status_request L (server s) url) = Response code status b"
    and "code \<noteq> 200"
  shows "pollIQServer L net url s =
    Return None
      (s\<lparr>sent := sent s @ [status_request L (server s) url],
         server := (server s)\<lparr>tries := tries (server s) + 1\<rparr>\<rparr>)"
  using assms by (cases b) (simp add: pollIQServer_def Let_def)

text \<open>
  With a server that answers every poll with a status other than 200, the goroutine polls as
  long as the counter does not exceed \<^verbatim>\<open>MaxRetries\<close>; then \<open>pollIQServer\<close> hands the error
  \<^verbatim>\<open>exceeded max retries\<close> to the caller, and the goroutine's own send of the returned error
  finds no receiver.
\<close>

lemma audit_goroutine_all_non_OK:
  assumes "http_NewRequest L ''GET'' (Server (Options (server s)) @ ''/'' @ statusURL) = None"
    and "\<And>n. \<exists>code status b.
            net n (status_request L (server s) (Server (Options (server s)) @ ''/'' @ statusURL))
              = Response code status b \<and> code \<noteq> 200"
    and "caller s = None"
    and "k = nat (MaxRetries (Options (server s)) + 1 - tries (server s))"
  shows "audit_goroutine L net statusURL s =
    Blocked
      (s\<lparr>sent := sent s @ replicate k
            (status_request L (server s) (Server (Options (server s)) @ ''/'' @ statusURL)),
         server := (server s)\<lparr>tries := tries (server s) + int k\<rparr>,
         signals := signals s + 2,
         caller := Some (statusURLResp s,
           \<lparr>finished = True,
            err = Some (GoError (''exceeded max retries: '' @ show_int (MaxRetries (Options (server s)))))\<rparr>)\<rparr>)"
  using assms
proof (induction k arbitrary: s)
  case 0
  then have ex: "tries (server s) > MaxRetries (Options (server s))" by simp
  show ?case
    by (subst audit_goroutine.simps)
       (simp add: pollIQServer_exhausted [OF ex \<open>caller s = None\<close>] send_def)
next
  case (Suc k)
  let ?url = "Server (Options (server s)) @ ''/'' @ statusURL"
  let ?s1 = "s\<lparr>sent := sent s @ [status_request L (server s) ?url],
               server := (server s)\<lparr>tries := tries (server s) + 1\<rparr>\<rparr>"
  from Suc.prems have le: "tries (server s) \<le> MaxRetries (Options (server s))" by simp
  obtain code status b where r:
    "net (length (sent s)) (status_request L (server s) ?url) = Response code status b" "code \<noteq> 200"
    using Suc.prems(2) by blast
  have step: "pollIQServer L net ?url s = Return None ?s1"
    using le Suc.prems(1) r
    by (intro pollIQServer_non_OK [where code = code and status = status and b = b]) auto
  have k: "k = nat (MaxRetries (Options (server ?s1)) + 1 - tries (server ?s1))"
    using Suc.prems(4) by simp
  have IH: "audit_goroutine L net statusURL ?s1 = Blocked
      (?s1\<lparr>sent := sent ?s1 @ replicate k
            (status_request L (server ?s1) (Server (Options (server ?s1)) @ ''/'' @ statusURL)),
         server := (server ?s1)\<lparr>tries := tries (server ?s1) + int k\<rparr>,
         signals := signals ?s1 + 2,
         caller := Some (statusURLResp ?s1,
           \<lparr>finished = True,
            err = Some (GoError (''exceeded max retries: '' @ show_int (MaxRetries (Options (server ?s1)))))\<rparr>)\<rparr>)"
    by (rule Suc.IH [OF _ _ _ k]) (use Suc.prems in simp_all)
  show ?case
    apply (subst audit_goroutine.simps)
    apply (simp only: step outcome.case option.case IH)
    apply simp
    done
qed

text \<open>
  With \<^verbatim>\<open>MaxRetries\<close> 2, a counter at 0 and a status endpoint that answers every poll with a
  status other than 200, the goroutine sends exactly three poll requests (the counter being 0,
  1 and 2), the caller of \<^verbatim>\<open>audit\<close> then receives the error \<^verbatim>\<open>exceeded max retries: 2\<close>, and the
  goroutine blocks in its second send. In general a call of \<open>pollIQServer\<close> compares the counter
  with \<^verbatim>\<open>MaxRetries\<close> first: when the counter exceeds it, no request is sent and the call fails
  with \<^verbatim>\<open>exceeded max retries\<close>.
\<close>

lemma poll_loop_max_retries:
  "(MaxRetries (Options (server s)) = 2 \<longrightarrow> tries (server s) = 0 \<longrightarrow> caller s = None \<longrightarrow>
      http_NewRequest L ''GET'' (Server (Options (server s)) @ ''/'' @ statusURL) = None \<longrightarrow>
      (\<forall>n. \<exists>code status b.
          net n (status_request L (server s) (Server (Options (server s)) @ ''/'' @ statusURL))
            = Response code status b \<and> code \<noteq> 200) \<longrightarrow>
      audit_goroutine L net statusURL s =
        Blocked
          (s\<lparr>sent := sent s @ replicate 3
                (status_request L (server s) (Server (Options (server s)) @ ''/'' @ statusURL)),
             server := (server s)\<lparr>tries := 3\<rparr>,
             signals := signals s + 2,
             caller := Some (statusURLResp s,
               \<lparr>finished = True, err = Some (GoError ''exceeded max retries: 2'')\<rparr>)\<rparr>))
   \<and> (MaxRetries (Options (server s)) < tries (server s) \<longrightarrow>
        sent (state_of (pollIQServer L net url s)) = sent s \<and>
        (caller s = None \<longrightarrow>
           pollIQServer L net url s =
             Return (Some (ServerError
                       (Some (GoError (''exceeded max retries: '' @ show_int (MaxRetries (Options (server s))))))
                       ''exceeded max retries''))
               (s\<lparr>signals := signals s + 1,
                  caller := Some (statusURLResp s,
                    \<lparr>finished = True,
                     err = Some (GoError (''exceeded max retries: ''
                                   @ show_int (MaxRetries (Options (server s)))))\<rparr>)\<rparr>)))"
proof (intro conjI impI)
  assume a: "MaxRetries (Options (server s)) = 2" "tries (server s) = 0" "caller s = None"
    "http_NewRequest L ''GET'' (Server (Options (server s)) @ ''/'' @ statusURL) = None"
    "\<forall>n. \<exists>code status b.
          net n (status_request L (server s) (Server (Options (server s)) @ ''/'' @ statusURL))
            = Response code status b \<and> code \<noteq> 200"
  have k: "3 = nat (MaxRetries (Options (server s)) + 1 - tries (server s))"
    using a by simp
  show "audit_goroutine L net statusURL s =
        Blocked
          (s\<lparr>sent := sent s @ replicate 3
                (status_request L (server s) (Server (Options (server s)) @ ''/'' @ statusURL)),
             server := (server s)\<lparr>tries := 3\<rparr>,
             signals := signals s + 2,
             caller := Some (statusURLResp s,
               \<lparr>finished = True, err = Some (GoError ''exceeded max retries: 2'')\<rparr>)\<rparr>)"
    using audit_goroutine_all_non_OK [OF a(4) _ a(3) k] a(1,2,5) by (simp add: show_int_2)
next
  assume "MaxRetries (Options (server s)) < tries (server s)"
  then show "sent (state_of (pollIQServer L net url s)) = sent s"
    by (rule pollIQServer_exhausted_sent)
next
  assume "MaxRetries (Options (server s)) < tries (server s)" "caller s = None"
  then show "pollIQServer L net url s =
             Return (Some (ServerError
                       (Some (GoError (''exceeded max retries: '' @ show_int (MaxRetries (Options (server s))))))
                       ''exceeded max retries''))
               (s\<lparr>signals := signals s + 1,
                  caller := Some (statusURLResp s,
                    \<lparr>finished = True,
                     err = Some (GoError (''exceeded max retries: ''
                                   @ show_int (MaxRetries (Options (server s)))))\<rparr>)\<rparr>)"
    by (rule pollIQServer_exhausted)
qed

subsection \<open>The attempt counter\<close>

lemma send_frame:
  "server (state_of (send r s)) = server s \<and> sent (state_of (send r s)) = sent s"
  by (simp add: send_def Let_def split: option.splits)

lemma populateAbsoluteURL_frame:
  "server (state_of (populateAbsoluteURL L b s)) = server s \<and>
   sent (state_of (populateAbsoluteURL L b s)) = sent s"
  by (simp add: populateAbsoluteURL_def split: option.splits)

lemma pollIQServer_tries:
  "server (state_of (pollIQServer L net url s)) =
     (if (\<exists>s'. pollIQServer L net url s = Return None s')
      then (server s)\<lparr>tries := tries (server s) + 1\<rparr> else server s)"
  by (auto simp: pollIQServer_def send_def populateAbsoluteURL_def Let_def
           split: if_splits option.splits exchange.splits body.splits sum.splits outcome.splits)

lemma pollIQServer_sent:
  "length (sent (state_of (pollIQServer L net url s))) \<le> length (sent s) + 1 \<and>
   (\<forall>s'. pollIQServer L net url s = Return None s' \<longrightarrow> length (sent s') = length (sent s) + 1)"
  by (auto simp: pollIQServer_def send_def populateAbsoluteURL_def Let_def
           split: if_splits option.splits exchange.splits body.splits sum.splits outcome.splits)

lemma audit_goroutine_tries:
  "tries (server s) \<le> tries (server (state_of (audit_goroutine L net statusURL s))) \<and>
   Options (server (state_of (audit_goroutine L net statusURL s))) = Options (server s)"
proof (induction L net statusURL s rule: audit_goroutine.induct)
  case (1 L net statusURL s)
  let ?url = "Server (Options (server s)) @ ''/'' @ statusURL"
  show ?case
  proof (cases "pollIQServer L net ?url s")
    case (Return errPoll s1)
    have s1: "server s1 = (if errPoll = None then (server s)\<lparr>tries := tries (server s) + 1\<rparr> else server s)"
      using pollIQServer_tries [of L net ?url s] Return by auto
    show ?thesis
    proof (cases errPoll)
      case None
      with 1 [OF Return None] Return s1 show ?thesis
        by (subst (1 2) audit_goroutine.simps) simp
    next
      case (Some e)
      with Return s1 show ?thesis
        by (subst (1 2) audit_goroutine.simps) (simp add: send_frame)
    qed
  next
    case (Blocked s1)
    with pollIQServer_tries [of L net ?url s] show ?thesis
      by (subst (1 2) audit_goroutine.simps) simp
  next
    case (Panicked s1)
    with pollIQServer_tries [of L net ?url s] show ?thesis
      by (subst (1 2) audit_goroutine.simps) simp
  qed
qed

lemma submitToThirdPartyAPI_server:
  "server (snd (submitToThirdPartyAPI L net sbom internalID s)) = server s"
  by (simp add: submitToThirdPartyAPI_def Let_def
           split: option.splits exchange.splits body.splits sum.splits)

lemma getInternalApplicationID_server:
  "server (snd (getInternalApplicationID L net applicationID s)) = server s"
  by (simp add: getInternalApplicationID_def Let_def
           split: option.splits exchange.splits body.splits sum.splits list.splits)

lemma audit_tries:
  "tries (server s) \<le> tries (server (snd (snd (audit L net sbom internalID s))))"
proof (cases "submitToThirdPartyAPI L net sbom internalID s")
  case (Pair r s1)
  obtain statusURL e where r: "r = (statusURL, e)" by (cases r)
  have s1: "server s1 = server s"
    using submitToThirdPartyAPI_server [of L net sbom internalID s] Pair by simp
  show ?thesis
    using audit_goroutine_tries [of "s1\<lparr>statusURLResp := zeroStatusURLResult, caller := None, signals := 0\<rparr>" L net statusURL]
    by (cases e) (simp_all add: audit_def Pair r s1 Let_def)
qed

lemma AuditWithSbom_tries:
  "tries (server s) \<le> tries (server (snd (snd (AuditWithSbom L net sbom s))))"
proof (cases "getInternalApplicationID L net (Application (Options (server s))) s")
  case (Pair r s1)
  obtain internalID e where r: "r = (internalID, e)" by (cases r)
  have s1: "server s1 = server s"
    using getInternalApplicationID_server [of L net "Application (Options (server s))" s] Pair by simp
  show ?thesis
    using audit_tries [of s1 L net sbom internalID]
    by (simp add: AuditWithSbom_def Pair r s1)
qed

lemma after_call_tries:
  "tries (server s) \<le> tries (server (after_call L net c s))"
proof (cases c)
  case (ResolveCall applicationID)
  then show ?thesis by (simp add: getInternalApplicationID_server)
next
  case (SubmitCall sbom internalID)
  then show ?thesis by (simp add: submitToThirdPartyAPI_server)
next
  case (PollCall statusURL ch)
  then show ?thesis
    using pollIQServer_tries [of L net statusURL "s\<lparr>caller := ch\<rparr>"] by (simp split: if_splits)
qed

lemma after_calls_tries:
  "tries (server s) \<le> tries (server (after_calls L net cs s))"
proof (induction cs arbitrary: s)
  case Nil
  show ?case by simp
next
  case (Cons c cs)
  have "tries (server s) \<le> tries (server (after_call L net c s))"
    by (rule after_call_tries)
  also have "\<dots> \<le> tries (server (after_calls L net cs (after_call L net c s)))"
    by (rule Cons.IH)
  finally show ?case by simp
qed

lemma pollIQServer_OK_first:
  assumes "tries (server s) \<le> MaxRetries (Options (server s))"
    and "http_NewRequest L ''GET'' url = None"
    and "net (length (sent s)) (status_request L (server s) url)
           = Response 200 status (Body bodyBytes None)"
    and "json_StatusURLResult L bodyBytes = Inr decoded"
    and "\<not> IsError decoded"
    and "url_Parse L (ReportHTMLURL decoded) = Some u"
    and "caller s = None"
  shows "\<exists>s'. pollIQServer L net url s = Return None s'"
  using assms by (simp add: pollIQServer_def populateAbsoluteURL_def send_def Let_def)

lemma pollIQServer_failed:
  assumes "net (length (sent s)) (status_request L (server s) url) = DoError e
           \<or> net (length (sent s)) (status_request L (server s) url)
                = Response 200 status (Body bodyBytes (Some e))
           \<or> (net (length (sent s)) (status_request L (server s) url)
                = Response 200 status (Body bodyBytes None)
               \<and> json_StatusURLResult L bodyBytes = Inl e)"
  shows "\<not> (\<exists>s'. pollIQServer L net url s = Return None s')"
  using assms
  by (cases "http_NewRequest L ''GET'' url")
     (auto simp: pollIQServer_def send_def Let_def split: option.splits)

lemma New_tries: "New logger options now = Normal (Inr i) \<Longrightarrow> tries i = 0"
  by (auto simp: New_def Let_def split: option.splits panics.splits)

text \<open>
  C9, as stated, fails: the counter is not incremented once per poll request. A poll whose
  request fails in transport has sent its request and leaves the counter as it was (and so
  does a poll whose answer cannot be read or decoded).
\<close>

theorem failed_poll_leaves_tries:
  "sent (state_of (pollIQServer example_lib (accepting_server connection_refused)
                     ''http://server/abc'' example_state))
     = [status_request example_lib (server example_state) ''http://server/abc'']
   \<and> tries (server example_state) = 0
   \<and> tries (server (state_of (pollIQServer example_lib (accepting_server connection_refused)
                     ''http://server/abc'' example_state))) = 0"
  by (simp add: pollIQServer_def send_def example_defs Let_def)

text \<open>
  C9, amended. \<open>New\<close> builds the client with the counter at 0. A call of \<open>pollIQServer\<close> adds
  one to the counter exactly when it returns a nil error, having sent one request, and
  leaves it as it was otherwise. So a poll answered with a status other than 200 adds one,
  and so does a poll answered with status 200 and a readable, decodable body whose
  \<^verbatim>\<open>isError\<close> is false and whose report URL parses, when the caller of \<^verbatim>\<open>audit\<close> has not been
  signalled before; a poll that fails in transport, or whose body cannot be read or decoded,
  leaves the counter as it was. Nothing resets the counter: it is at least as large after
  \<open>audit\<close> and after \<open>AuditWithSbom\<close> as it was before, and after any list of calls made with
  one client, whichever audits' goroutines make the polls.
\<close>

theorem tries_incremented_by_completed_polls:
  "(New logger options now = Normal (Inr i) \<longrightarrow> tries i = 0)
   \<and> tries (server (state_of (pollIQServer L net url s))) =
       (if (\<exists>s'. pollIQServer L net url s = Return None s')
        then tries (server s) + 1 else tries (server s))
   \<and> (\<forall>s'. pollIQServer L net url s = Return None s' \<longrightarrow> length (sent s') = length (sent s) + 1)
   \<and> (tries (server s) \<le> MaxRetries (Options (server s)) \<longrightarrow>
       http_NewRequest L ''GET'' url = None \<longrightarrow>
       net (length (sent s)) (status_request L (server s) url) = Response code status b \<longrightarrow>
       code \<noteq> 200 \<longrightarrow>
       tries (server (state_of (pollIQServer L net url s))) = tries (server s) + 1)
   \<and> (tries (server s) \<le> MaxRetries (Options (server s)) \<longrightarrow>
       http_NewRequest L ''GET'' url = None \<longrightarrow>
       net (length (sent s)) (status_request L (server s) url)
         = Response 200 status (Body bodyBytes None) \<longrightarrow>
       json_StatusURLResult L bodyBytes = Inr decoded \<longrightarrow>
       \<not> IsError decoded \<longrightarrow>
       url_Parse L (ReportHTMLURL decoded) = Some u \<longrightarrow>
       caller s = None \<longrightarrow>
       tries (server (state_of (pollIQServer L net url s))) = tries (server s) + 1)
   \<and> (net (length (sent s)) (status_request L (server s) url) = DoError e
        \<or> net (length (sent s)) (status_request L (server s) url)
             = Response 200 status (Body bodyBytes (Some e))
        \<or> (net (length (sent s)) (status_request L (server s) url)
             = Response 200 status (Body bodyBytes None)
            \<and> json_StatusURLResult L bodyBytes = Inl e) \<longrightarrow>
       tries (server (state_of (pollIQServer L net url s))) = tries (server s))
   \<and> tries (server s) \<le> tries (server (snd (snd (audit L net sbom internalID s))))
   \<and> tries (server s) \<le> tries (server (snd (snd (AuditWithSbom L net sbom s))))
   \<and> tries (server s) \<le> tries (server (after_calls L net calls s))"
proof -
  have t: "tries (server (state_of (pollIQServer L net url s))) =
       (if (\<exists>s'. pollIQServer L net url s = Return None s')
        then tries (server s) + 1 else tries (server s))"
    using pollIQServer_tries [of L net url s] by (simp split: if_splits)
  have nonok: "tries (server s) \<le> MaxRetries (Options (server s)) \<Longrightarrow>
       http_NewRequest L ''GET'' url = None \<Longrightarrow>
       net (length (sent s)) (status_request L (server s) url) = Response code status b \<Longrightarrow>
       code \<noteq> 200 \<Longrightarrow>
       tries (server (state_of (pollIQServer L net url s))) = tries (server s) + 1"
    by (simp add: pollIQServer_non_OK [where code = code and status = status and b = b])
  have ok: "tries (server s) \<le> MaxRetries (Options (server s)) \<Longrightarrow>
       http_NewRequest L ''GET'' url = None \<Longrightarrow>
       net (length (sent s)) (status_request L (server s) url)
         = Response 200 status (Body bodyBytes None) \<Longrightarrow>
       json_StatusURLResult L bodyBytes = Inr decoded \<Longrightarrow>
       \<not> IsError decoded \<Longrightarrow>
       url_Parse L (ReportHTMLURL decoded) = Some u \<Longrightarrow>
       caller s = None \<Longrightarrow>
       tries (server (state_of (pollIQServer L net url s))) = tries (server s) + 1"
    using pollIQServer_OK_first [where s = s and L = L and url = url and net = net
        and status = status and bodyBytes = bodyBytes and decoded = decoded and u = u] t by simp
  have failed: "net (length (sent s)) (status_request L (server s) url) = DoError e
        \<or> net (length (sent s)) (status_request L (server s) url)
             = Response 200 status (Body bodyBytes (Some e))
        \<or> (net (length (sent s)) (status_request L (server s) url)
             = Response 200 status (Body bodyBytes None)
            \<and> json_StatusURLResult L bodyBytes = Inl e) \<Longrightarrow>
       tries (server (state_of (pollIQServer L net url s))) = tries (server s)"
    using pollIQServer_failed [where net = net and s = s and L = L and url = url and e = e
        and status = status and bodyBytes = bodyBytes] t by simp
  show ?thesis
    using New_tries [of logger options now i] t pollIQServer_sent [of L net url s]
      nonok ok failed audit_tries [of s L net sbom internalID]
      AuditWithSbom_tries [of s L net sbom] after_calls_tries [of s L net calls]
    by blast
qed

theorem tries_incremented_by_completed_polls_witness:
  "New (Some Logger) example_options 0 = Normal (Inr (server example_state))
   \<and> tries (server example_state) = 0
   \<and> tries (server (state_of (pollIQServer example_lib (accepting_server service_unavailable)
                                  ''http://server/abc'' example_state))) = 1
   \<and> tries (server (state_of (pollIQServer example_lib (accepting_server scan_done)
                                  ''http://server/abc'' example_state))) = 1
   \<and> tries (server (state_of (pollIQServer example_lib (accepting_server connection_refused)
                                  ''http://server/abc'' example_state))) = 0"
proof -
  have built: "New (Some Logger) example_options 0 = Normal (Inr (server example_state))"
    by (simp add: New_def validateRequiredOption_def FieldByName_IsZero_def HasSuffix_def
          example_state_def example_options_def)
  have ready: "tries (server example_state) \<le> MaxRetries (Options (server example_state))"
    "http_NewRequest example_lib ''GET'' ''http://server/abc'' = None"
    "caller example_state = None"
    by (simp_all add: example_defs)
  have unavailable:
    "accepting_server service_unavailable (length (sent example_state))
       (status_request example_lib (server example_state) ''http://server/abc'')
     = Response 503 ''503 Service Unavailable'' (Body [] None)"
    by (simp add: example_defs)
  have good: \<open>accepting_server scan_done (length (sent example_state))
       (status_request example_lib (server example_state) ''http://server/abc'')
     = Response 200 ''200 OK''
         (Body ''{"policyAction":"Warning","reportHtmlUrl":"/report/42","isError":false}'' None)\<close>
    \<open>json_StatusURLResult example_lib
       ''{"policyAction":"Warning","reportHtmlUrl":"/report/42","isError":false}''
     = Inr \<lparr>PolicyAction = ''Warning'', ReportHTMLURL = ''/report/42'',
            AbsoluteReportHTMLURL = [], IsError = False, ErrorMessage = []\<rparr>\<close>
    "\<not> IsError \<lparr>PolicyAction = ''Warning'', ReportHTMLURL = ''/report/42'',
            AbsoluteReportHTMLURL = [], IsError = False, ErrorMessage = []\<rparr>"
    "url_Parse example_lib (ReportHTMLURL \<lparr>PolicyAction = ''Warning'', ReportHTMLURL = ''/report/42'',
            AbsoluteReportHTMLURL = [], IsError = False, ErrorMessage = []\<rparr>)
     = Some (zeroURL\<lparr>Path := ''/report/42''\<rparr>)"
    by (simp_all add: example_defs go_url_defs)
  have ne: "(503::int) \<noteq> 200" by simp
  have refused:
    "accepting_server connection_refused (length (sent example_state))
       (status_request example_lib (server example_state) ''http://server/abc'')
     = DoError (GoError ''dial tcp: connection refused'')"
    by (simp add: example_defs)
  from built
    tries_incremented_by_completed_polls [where logger = "Some Logger" and options = example_options
      and now = 0 and i = "server example_state"]
  have zero: "tries (server example_state) = 0" by blast
  from ready unavailable ne
    tries_incremented_by_completed_polls [where L = example_lib and s = example_state
      and net = "accepting_server service_unavailable" and url = "''http://server/abc''"
      and code = 503 and status = "''503 Service Unavailable''" and b = "Body [] None"]
  have one: "tries (server (state_of (pollIQServer example_lib (accepting_server service_unavailable)
                                  ''http://server/abc'' example_state)))
               = tries (server example_state) + 1"
    by blast
  from ready good
    tries_incremented_by_completed_polls [where L = example_lib and s = example_state
      and net = "accepting_server scan_done" and url = "''http://server/abc''"
      and status = "''200 OK''"
      and bodyBytes = "''{\"policyAction\":\"Warning\",\"reportHtmlUrl\":\"/report/42\",\"isError\":false}''"
      and decoded = "\<lparr>PolicyAction = ''Warning'', ReportHTMLURL = ''/report/42'',
            AbsoluteReportHTMLURL = [], IsError = False, ErrorMessage = []\<rparr>"
      and u = "zeroURL\<lparr>Path := ''/report/42''\<rparr>"]
  have two: "tries (server (state_of (pollIQServer example_lib (accepting_server scan_done)
                                  ''http://server/abc'' example_state)))
               = tries (server example_state) + 1"
    by blast
  from refused
    tries_incremented_by_completed_polls [where L = example_lib and s = example_state
      and net = "accepting_server connection_refused" and url = "''http://server/abc''"
      and e = "GoError ''dial tcp: connection refused''"]
  have three: "tries (server (state_of (pollIQServer example_lib (accepting_server connection_refused)
                                  ''http://server/abc'' example_state)))
               = tries (server example_state)"
    by blast
  from built zero one two three show ?thesis by simp
qed

subsection \<open>The completion signal\<close>

text \<open>
  Four audits with the client of the examples (\<^verbatim>\<open>MaxRetries\<close> 2), against servers that accept
  the submission and then answer every poll in the same way: the result the caller gets, how
  the goroutine ends, the number of send statements it reached and the number of requests
  sent (the submission and the polls).
\<close>

lemma audit_connection_refused:
  "fst (example_audit connection_refused)
     = Some (zeroStatusURLResult, Some (GoError ''dial tcp: connection refused''))
   \<and> fst (snd (example_audit connection_refused)) = Leaked
   \<and> signals (snd (snd (example_audit connection_refused))) = 2
   \<and> length (sent (snd (snd (example_audit connection_refused)))) = 2"
  by (simp add: run_defs example_defs)

lemma audit_service_unavailable:
  "fst (example_audit service_unavailable)
     = Some (zeroStatusURLResult, Some (GoError ''exceeded max retries: 2''))
   \<and> fst (snd (example_audit service_unavailable)) = Leaked
   \<and> signals (snd (snd (example_audit service_unavailable))) = 2
   \<and> length (sent (snd (snd (example_audit service_unavailable)))) = 4"
  by (simp add: run_defs example_defs)

lemma audit_scan_failed:
  "map_option snd (fst (example_audit scan_failed)) = Some None
   \<and> fst (snd (example_audit scan_failed)) = Leaked
   \<and> signals (snd (snd (example_audit scan_failed))) = 2
   \<and> length (sent (snd (snd (example_audit scan_failed)))) = 2"
  by (simp add: run_defs example_defs go_url_defs)

lemma audit_scan_done:
  "fst (example_audit scan_done)
     = Some (\<lparr>PolicyAction = ''Warning'', ReportHTMLURL = ''/report/42'',
              AbsoluteReportHTMLURL = ''http://server/report/42'', IsError = False,
              ErrorMessage = []\<rparr>, None)
   \<and> fst (snd (example_audit scan_done)) = Leaked
   \<and> signals (snd (snd (example_audit scan_done))) = 2
   \<and> length (sent (snd (snd (example_audit scan_done)))) = 3"
  by (simp add: run_defs example_defs go_url_defs)

text \<open>
  C3. The poll loop does not terminate when the retries are exhausted. The client of the
  examples has \<^verbatim>\<open>MaxRetries\<close> 2 and its counter at 0, and the server answers every poll with
  status 503. As C3 says, the goroutine sends exactly three poll requests (the counter being
  0, 1 and 2), the fourth call of \<open>pollIQServer\<close> compares the counter first and sends nothing,
  and the caller of \<^verbatim>\<open>audit\<close> receives the error \<^verbatim>\<open>exceeded max retries: 2\<close>. But the goroutine then
  sends the error that \<open>pollIQServer\<close> returned once more; nobody receives it, so the goroutine
  does not return: it ends blocked in this second send.
\<close>

theorem poll_loop_max_retries_blocks:
  "MaxRetries (Options (server example_state)) = 2
   \<and> tries (server example_state) = 0
   \<and> audit_goroutine example_lib (accepting_server service_unavailable) ''abc'' example_state =
       Blocked
         (example_state
            \<lparr>sent := replicate 3
                (status_request example_lib (server example_state) ''http://server/abc''),
             server := (server example_state)\<lparr>tries := 3\<rparr>,
             signals := 2,
             caller := Some (zeroStatusURLResult,
               \<lparr>finished = True, err = Some (GoError ''exceeded max retries: 2'')\<rparr>)\<rparr>)
   \<and> fst (example_audit service_unavailable)
       = Some (zeroStatusURLResult, Some (GoError ''exceeded max retries: 2''))
   \<and> fst (snd (example_audit service_unavailable)) = Leaked"
  using poll_loop_max_retries [of example_state example_lib "''abc''" "accepting_server service_unavailable"]
    audit_service_unavailable
  by (simp add: example_defs)

text \<open>
  C1. The caller of \<open>audit\<close> receives one result, but the goroutine does not signal once. When
  the poll fails in transport, \<open>pollIQServer\<close> sends on the channel and returns an error, which
  the goroutine sends again; the same happens when the retries are exhausted; and when the
  answer has \<^verbatim>\<open>isError\<close> set, \<open>pollIQServer\<close> itself sends twice. Each time the second send finds
  no receiver: the goroutine blocks in it for ever and never closes the channel. After a
  successful poll the goroutine does not stop either: it polls again and blocks in the send
  of the next result. In every one of the four audits two send statements are reached.
\<close>

theorem audit_goroutine_signals_twice:
  "signals (snd (snd (example_audit connection_refused))) = 2
   \<and> fst (snd (example_audit connection_refused)) = Leaked
   \<and> signals (snd (snd (example_audit service_unavailable))) = 2
   \<and> fst (snd (example_audit service_unavailable)) = Leaked
   \<and> signals (snd (snd (example_audit scan_failed))) = 2
   \<and> fst (snd (example_audit scan_failed)) = Leaked
   \<and> signals (snd (snd (example_audit scan_done))) = 2
   \<and> fst (snd (example_audit scan_done)) = Leaked
   \<and> length (sent (snd (snd (example_audit scan_done)))) = 3"
  using audit_connection_refused audit_service_unavailable audit_scan_failed audit_scan_done
  by simp

subsection \<open>The absolute report URL\<close>

lemma populateAbsoluteURL_nil:
  "url_Parse L (ReportHTMLURL (statusURLResp s)) = None \<Longrightarrow>
     populateAbsoluteURL L iqServerBaseURL s = Panicked s"
  by (simp add: populateAbsoluteURL_def)

text \<open>
  C2. \<open>populateAbsoluteURL\<close> panics on a report URL that \<^verbatim>\<open>url.Parse\<close> rejects: for the report URL
  \<^verbatim>\<open>:\<close> (a colon with no scheme before it) the parser returns nil, and the method call on nil
  panics. In an audit whose poll answer carries this report URL the goroutine panics before
  it has sent anything, so the caller never gets a result.
\<close>

theorem populateAbsoluteURL_panics:
  \<open>populateAbsoluteURL example_lib ''http://server''
      (example_state\<lparr>statusURLResp := zeroStatusURLResult\<lparr>ReportHTMLURL := '':''\<rparr>\<rparr>)
     = Panicked (example_state\<lparr>statusURLResp := zeroStatusURLResult\<lparr>ReportHTMLURL := '':''\<rparr>\<rparr>)
   \<and> fst (example_audit scan_done_bad_url) = None
   \<and> fst (snd (example_audit scan_done_bad_url)) = Crashed\<close>
  by (simp add: run_defs example_defs go_url_defs)

text \<open>
  C4, as stated, fails. The report URL \<^verbatim>\<open>/r/1?x=2\<close> has no scheme, and with the server base
  \<^verbatim>\<open>http://h/\<close> the result is \<^verbatim>\<open>http://h/r/1\<close>, not \<^verbatim>\<open>http://h/r/1?x=2\<close>: only the path of the
  report URL is used. The report URL \<^verbatim>\<open>HTTP://other/x\<close> has a scheme, and the result is not the
  report URL unchanged but \<^verbatim>\<open>http://other/x\<close>, as \<^verbatim>\<open>String\<close> writes the parsed URL.
\<close>

theorem report_url_with_query:
  "map_option Scheme (go_url_Parse ''/r/1?x=2'') = Some []
   \<and> AbsoluteReportHTMLURL (statusURLResp (state_of (populateAbsoluteURL example_lib ''http://h/''
        (example_state\<lparr>statusURLResp := zeroStatusURLResult\<lparr>ReportHTMLURL := ''/r/1?x=2''\<rparr>\<rparr>))))
       = ''http://h/r/1''
   \<and> AbsoluteReportHTMLURL (statusURLResp (state_of (populateAbsoluteURL example_lib ''http://h/''
        (example_state\<lparr>statusURLResp := zeroStatusURLResult\<lparr>ReportHTMLURL := ''/r/1?x=2''\<rparr>\<rparr>))))
       \<noteq> TrimRight ''http://h/'' ''/'' @ ''/'' @ TrimLeft ''/r/1?x=2'' ''/''
   \<and> map_option Scheme (go_url_Parse ''HTTP://other/x'') = Some ''http''
   \<and> AbsoluteReportHTMLURL (statusURLResp (state_of (populateAbsoluteURL example_lib ''http://h/''
        (example_state\<lparr>statusURLResp := zeroStatusURLResult\<lparr>ReportHTMLURL := ''HTTP://other/x''\<rparr>\<rparr>))))
       \<noteq> ''HTTP://other/x''"
  by (simp add: run_defs example_defs go_url_defs)

text \<open>
  C4, amended. When \<^verbatim>\<open>url.Parse\<close> accepts the report URL: if the parsed URL has a scheme, the
  absolute URL is what \<^verbatim>\<open>String\<close> makes of the parsed URL; otherwise it is the server base with
  its trailing slashes stripped, followed by \<^verbatim>\<open>/\<close>, followed by the path of the parsed URL with
  its leading slashes stripped. In particular the report URL \<^verbatim>\<open>/r/1\<close> with the server base
  \<^verbatim>\<open>http://h/\<close> gives \<^verbatim>\<open>http://h/r/1\<close>, and the report URL \<^verbatim>\<open>http://other/x\<close> gives
  \<^verbatim>\<open>http://other/x\<close> with every server base.
\<close>

theorem populateAbsoluteURL_result:
  "(url_Parse L (ReportHTMLURL (statusURLResp s)) = Some u \<longrightarrow>
      populateAbsoluteURL L iqServerBaseURL s =
        Return () (s\<lparr>statusURLResp := (statusURLResp s)\<lparr>AbsoluteReportHTMLURL :=
           (if Scheme u \<noteq> [] then url_String L u
            else TrimRight iqServerBaseURL ''/'' @ ''/'' @ TrimLeft (Path u) ''/'')\<rparr>\<rparr>))
   \<and> AbsoluteReportHTMLURL (statusURLResp (state_of (populateAbsoluteURL example_lib ''http://h/''
        (example_state\<lparr>statusURLResp := zeroStatusURLResult\<lparr>ReportHTMLURL := ''/r/1''\<rparr>\<rparr>))))
       = ''http://h/r/1''
   \<and> AbsoluteReportHTMLURL (statusURLResp (state_of (populateAbsoluteURL example_lib serverBase
        (example_state\<lparr>statusURLResp := zeroStatusURLResult\<lparr>ReportHTMLURL := ''http://other/x''\<rparr>\<rparr>))))
       = ''http://other/x''"
  by (simp add: run_defs example_defs go_url_defs)

theorem populateAbsoluteURL_result_witness:
  "url_Parse example_lib (ReportHTMLURL (statusURLResp
       (example_state\<lparr>statusURLResp := zeroStatusURLResult\<lparr>ReportHTMLURL := ''/r/1?x=2''\<rparr>\<rparr>)))
     = Some (zeroURL\<lparr>Path := ''/r/1'', RawQuery := ''x=2''\<rparr>)
   \<and> populateAbsoluteURL example_lib ''http://h/''
       (example_state\<lparr>statusURLResp := zeroStatusURLResult\<lparr>ReportHTMLURL := ''/r/1?x=2''\<rparr>\<rparr>)
     = Return () (example_state\<lparr>statusURLResp :=
         zeroStatusURLResult\<lparr>ReportHTMLURL := ''/r/1?x=2'', AbsoluteReportHTMLURL := ''http://h/r/1''\<rparr>\<rparr>)"
proof -
  have p: "url_Parse example_lib (ReportHTMLURL (statusURLResp
       (example_state\<lparr>statusURLResp := zeroStatusURLResult\<lparr>ReportHTMLURL := ''/r/1?x=2''\<rparr>\<rparr>)))
     = Some (zeroURL\<lparr>Path := ''/r/1'', RawQuery := ''x=2''\<rparr>)"
    by (simp add: example_defs go_url_defs Let_def)
  show ?thesis
    using p populateAbsoluteURL_result [of example_lib
        "example_state\<lparr>statusURLResp := zeroStatusURLResult\<lparr>ReportHTMLURL := ''/r/1?x=2''\<rparr>\<rparr>"
        "zeroURL\<lparr>Path := ''/r/1'', RawQuery := ''x=2''\<rparr>" "''http://h/''" "''http://h/''"]
    by (simp add: TrimLeft_def TrimRight_def zeroURL_def example_defs)
qed

end
